theory Spec2Isabelle
  imports Complex_Main "HOL-Library.Word"
begin

unbundle bit_operations_syntax

section \<open>JavaScript values used by the service\<close>

text \<open>
  A JavaScript property that may be \<open>undefined\<close> or \<open>null\<close> is an \<open>option\<close>; \<open>None\<close> is the
  absent value. The operators below are the ones the sources apply to such values:
  \<open>!x\<close>, \<open>x < n\<close> and \<open>x || d\<close>. For a number, \<open>undefined\<close> and \<open>0\<close> are falsy and
  \<open>undefined < n\<close> is \<open>false\<close> (the comparison is made on \<open>NaN\<close>); for a string,
  \<open>undefined\<close> and the empty string are falsy.
\<close>

definition js_not_num :: "nat option \<Rightarrow> bool" where
  "js_not_num x = (case x of None \<Rightarrow> True | Some n \<Rightarrow> n = 0)"

definition js_lt_num :: "nat option \<Rightarrow> nat \<Rightarrow> bool" where
  "js_lt_num x m = (case x of None \<Rightarrow> False | Some n \<Rightarrow> n < m)"

definition js_or_num :: "nat option \<Rightarrow> nat \<Rightarrow> nat" where
  "js_or_num x d = (case x of None \<Rightarrow> d | Some n \<Rightarrow> if n = 0 then d else n)"

definition js_truthy :: "string option \<Rightarrow> bool" where
  "js_truthy x = (case x of None \<Rightarrow> False | Some s \<Rightarrow> s \<noteq> [])"

definition js_or :: "string option \<Rightarrow> string option \<Rightarrow> string option" where
  "js_or x y = (if js_truthy x then x else y)"

definition js_or_int :: "int option \<Rightarrow> int option \<Rightarrow> int option" where
  "js_or_int x y = (case x of None \<Rightarrow> y | Some n \<Rightarrow> if n = 0 then y else x)"

text \<open>\<open>Number.prototype.toString(radix)\<close> on a non-negative integer.\<close>

definition digit_char :: "nat \<Rightarrow> char" where
  "digit_char d = (''0123456789abcdefghijklmnopqrstuvwxyz'' ! d)"

function toString_radix :: "nat \<Rightarrow> nat \<Rightarrow> string" where
  "toString_radix r n =
     (if r < 2 \<or> n < r then [digit_char n]
      else toString_radix r (n div r) @ [digit_char (n mod r)])"
  by pat_completeness auto
termination
  by (relation "measure snd") auto

declare toString_radix.simps [simp del]

text \<open>\<open>Array.prototype.join\<close> and the splitting of a string at a separator.\<close>

fun join_with :: "'a list \<Rightarrow> 'a list list \<Rightarrow> 'a list" where
  "join_with sep [] = []"
| "join_with sep [x] = x"
| "join_with sep (x # y # ys) = x @ sep @ join_with sep (y # ys)"

fun split_on :: "char \<Rightarrow> string \<Rightarrow> string list" where
  "split_on c [] = [[]]"
| "split_on c (x # xs) =
     (if x = c then [] # split_on c xs
      else (case split_on c xs of
              [] \<Rightarrow> [[x]]
            | p # ps \<Rightarrow> (x # p) # ps))"

section \<open>Configuration (config/idrock.js)\<close>

record idrock_config =
  api_retryAttempts :: nat
  api_retryDelay :: nat
  fallback_enabled :: bool
  fallback_defaultRiskLevel :: string
  fallback_allowProceed :: bool
  fallback_logFailures :: bool
  integration_enabled :: bool

text \<open>
  The shipped configuration. \<open>integration.enabled\<close> is
  \<open>process.env.IDROCK_ENABLED !== 'false'\<close>, so it is the argument.
\<close>

definition idrockConfig :: "bool \<Rightarrow> idrock_config" where
  "idrockConfig idrock_enabled =
     \<lparr> api_retryAttempts = 3,
       api_retryDelay = 1000,
       fallback_enabled = True,
       fallback_defaultRiskLevel = ''REVIEW'',
       fallback_allowProceed = True,
       fallback_logFailures = True,
       integration_enabled = idrock_enabled \<rparr>"

section \<open>The Node SDK (services/idrockClient.js)\<close>

subsection \<open>Errors\<close>

text \<open>
  A failed HTTP exchange as axios reports it: an error with \<open>error.response\<close> (status,
  status text and the \<open>detail\<close> of the body, already reduced to
  \<open>detail.message || detail\<close>), an error with only \<open>error.request\<close> (no answer: network
  failure or timeout), or an error with neither.
\<close>

datatype axios_failure =
    HttpFailure nat string "string option"
  | NoResponse
  | SetupFailure string

datatype js_error =
    IDRockAPIError string "js_error option" "nat option"
  | AxiosError axios_failure
  | TypeError string
  | ReferenceError string
  | DatabaseError string

text \<open>What the server answers to one request: a 2xx answer with its body (\<open>None\<close> is the
  JSON body \<open>null\<close>), or a failure.\<close>

datatype 'd http_result = Resolved "'d option" | Rejected axios_failure

subsection \<open>Client configuration and state\<close>

record sdk_options =
  opt_retryAttempts :: "nat option"
  opt_retryDelay :: "nat option"
  opt_enableLogging :: "bool option"

record sdk_config =
  retryAttempts :: nat
  retryDelay :: nat
  enableLogging :: bool

text \<open>The constructor's merge: \<open>config.x || idrockConfig.api.x\<close> and
  \<open>config.enableLogging !== false\<close>.\<close>

definition IDRockNodeSDK_config :: "idrock_config \<Rightarrow> sdk_options \<Rightarrow> sdk_config" where
  "IDRockNodeSDK_config gc opts =
     \<lparr> retryAttempts = js_or_num (opt_retryAttempts opts) (api_retryAttempts gc),
       retryDelay = js_or_num (opt_retryDelay opts) (api_retryDelay gc),
       enableLogging = (opt_enableLogging opts \<noteq> Some False) \<rparr>"

definition no_options :: sdk_options where
  "no_options = \<lparr> opt_retryAttempts = None, opt_retryDelay = None, opt_enableLogging = None \<rparr>"

text \<open>
  The client's mutable state: the three counters of \<open>this.stats\<close>, and two observations of
  the HTTP layer that the source does not store but the claims speak about: the number of
  requests put on the wire (\<open>sent\<close>) and the back-off delays waited, in order (\<open>slept\<close>).
  \<open>averageResponseTime\<close> and \<open>lastRequestTime\<close> depend on the clock only and are left out.
\<close>

record sdk_state =
  totalRequests :: nat
  successfulRequests :: nat
  failedRequests :: nat
  sent :: nat
  slept :: "nat list"

definition sdk_init :: sdk_state where
  "sdk_init = \<lparr> totalRequests = 0, successfulRequests = 0, failedRequests = 0,
                 sent = 0, slept = [] \<rparr>"

subsection \<open>The response interceptor (_setupInterceptors)\<close>

text \<open>
  \<open>shouldRetry = !config._retryCount && config._retryCount < this.config.retryAttempts &&
  (!error.response || error.response.status >= 500)\<close>, with \<open>config._retryCount\<close> the
  optional counter carried by the request configuration.
\<close>

definition retryable :: "axios_failure \<Rightarrow> bool" where
  "retryable e = (case e of HttpFailure status _ _ \<Rightarrow> status \<ge> 500 | _ \<Rightarrow> True)"

definition shouldRetry :: "sdk_config \<Rightarrow> nat option \<Rightarrow> axios_failure \<Rightarrow> bool" where
  "shouldRetry cfg retryCount e =
     (js_not_num retryCount \<and> js_lt_num retryCount (retryAttempts cfg) \<and> retryable e)"

text \<open>
  One call of \<open>this.httpClient(config)\<close>: the request goes out, the server's answer to the
  \<open>sent\<close>-th request comes back, and on a failure the interceptor either sets
  \<open>config._retryCount = (config._retryCount || 0) + 1\<close>, waits
  \<open>retryDelay * Math.pow(2, config._retryCount - 1)\<close> and calls the client again, or rejects.
\<close>

function httpClient_request ::
  "sdk_config \<Rightarrow> (nat \<Rightarrow> 'd http_result) \<Rightarrow> nat option \<Rightarrow> sdk_state
     \<Rightarrow> (axios_failure + 'd option) \<times> sdk_state" where
  "httpClient_request cfg server retryCount st =
     (case server (sent st) of
        Resolved d \<Rightarrow> (Inr d, st\<lparr>sent := sent st + 1\<rparr>)
      | Rejected e \<Rightarrow>
          if shouldRetry cfg retryCount e
          then httpClient_request cfg server (Some (js_or_num retryCount 0 + 1))
                 (st\<lparr>sent := sent st + 1,
                     slept := slept st @ [retryDelay cfg * 2 ^ (js_or_num retryCount 0 + 1 - 1)]\<rparr>)
          else (Inl e, st\<lparr>sent := sent st + 1\<rparr>))"
  by pat_completeness auto
termination
  by (relation "measure (\<lambda>(cfg, server, retryCount, st). if retryCount = Some 0 then 1 else 0)")
     (auto simp: shouldRetry_def js_not_num_def js_lt_num_def js_or_num_def split: option.splits)

declare httpClient_request.simps [simp del]

subsection \<open>Validation (_validateUserData)\<close>

record userData =
  userId :: "string option"
  ipAddress :: "string option"
  userAgent :: "string option"
  actionType :: "string option"

definition is_digit :: "char \<Rightarrow> bool" where
  "is_digit c = (c \<in> set ''0123456789'')"

definition is_hex :: "char \<Rightarrow> bool" where
  "is_hex c = (c \<in> set ''0123456789abcdefABCDEF'')"

text \<open>
  The regular expression
  \<open>/^(?:[0-9]{1,3}\.){3}[0-9]{1,3}$|^(?:[0-9a-fA-F]{1,4}:){7}[0-9a-fA-F]{1,4}$/\<close>:
  four groups of one to three digits separated by dots, or eight groups of one to four
  hexadecimal digits separated by colons. As the separator is no member of a group, a string
  matches exactly when splitting it at the separator gives that many such groups.
\<close>

definition ipRegex_test :: "string \<Rightarrow> bool" where
  "ipRegex_test s =
     ((length (split_on CHR ''.'' s) = 4 \<and>
       list_all (\<lambda>g. 1 \<le> length g \<and> length g \<le> 3 \<and> list_all is_digit g) (split_on CHR ''.'' s))
      \<or>
      (length (split_on CHR '':'' s) = 8 \<and>
       list_all (\<lambda>g. 1 \<le> length g \<and> length g \<le> 4 \<and> list_all is_hex g) (split_on CHR '':'' s)))"

definition validActions :: "string list" where
  "validActions = [''login'', ''checkout'', ''sensitive_action'']"

text \<open>The result is the error thrown, if any. The four required fields are tested in the
  order of the source's array.\<close>

definition validateUserData :: "userData \<Rightarrow> js_error option" where
  "validateUserData u =
     (if \<not> js_truthy (userId u) then
        Some (IDRockAPIError ''Missing required field: userId'' None None)
      else if \<not> js_truthy (ipAddress u) then
        Some (IDRockAPIError ''Missing required field: ipAddress'' None None)
      else if \<not> js_truthy (userAgent u) then
        Some (IDRockAPIError ''Missing required field: userAgent'' None None)
      else if \<not> js_truthy (actionType u) then
        Some (IDRockAPIError ''Missing required field: actionType'' None None)
      else if the (actionType u) \<notin> set validActions then
        Some (IDRockAPIError
               (''Invalid action type: '' @ the (actionType u) @ ''. Must be one of: '' @
                join_with '', '' validActions) None None)
      else if \<not> ipRegex_test (the (ipAddress u)) then
        Some (IDRockAPIError (''Invalid IP address format: '' @ the (ipAddress u)) None None)
      else None)"

subsection \<open>Error wrapping (_handleError)\<close>

definition handleError :: "js_error \<Rightarrow> string \<Rightarrow> js_error" where
  "handleError e operation =
     (case e of
        IDRockAPIError _ _ _ \<Rightarrow> e
      | AxiosError (HttpFailure status statusText detail) \<Rightarrow>
          IDRockAPIError
            (''Failed to '' @ operation @
               (case detail of
                  Some d \<Rightarrow> '': '' @ d
                | None \<Rightarrow> '': HTTP '' @ toString_radix 10 status @ '' '' @ statusText))
            (Some e) (Some status)
      | AxiosError NoResponse \<Rightarrow>
          IDRockAPIError (''Failed to '' @ operation @ '': Network error or timeout'') (Some e) None
      | AxiosError (SetupFailure m) \<Rightarrow>
          IDRockAPIError (''Failed to '' @ operation @ '': '' @ m) (Some e) None
      | TypeError m \<Rightarrow> IDRockAPIError (''Failed to '' @ operation @ '': '' @ m) (Some e) None
      | ReferenceError m \<Rightarrow> IDRockAPIError (''Failed to '' @ operation @ '': '' @ m) (Some e) None
      | DatabaseError m \<Rightarrow> IDRockAPIError (''Failed to '' @ operation @ '': '' @ m) (Some e) None)"

subsection \<open>The three calls\<close>

definition count_success :: "sdk_state \<Rightarrow> sdk_state" where
  "count_success st =
     st\<lparr>totalRequests := totalRequests st + 1,
        successfulRequests := successfulRequests st + 1\<rparr>"

definition count_failure :: "sdk_state \<Rightarrow> sdk_state" where
  "count_failure st =
     st\<lparr>totalRequests := totalRequests st + 1,
        failedRequests := failedRequests st + 1\<rparr>"

text \<open>
  \<open>verifyIdentity\<close>. The whole body is one \<open>try\<close>; its \<open>catch\<close> counts a failure and
  throws the wrapped error. In the \<open>try\<close>, validation comes first, then the request, then
  the two increments, then (with logging enabled) the log line that reads
  \<open>response.data.risk_level\<close>, which throws a \<open>TypeError\<close> on a \<open>null\<close> body (its message
  is written here without quotation marks). The request payload does not influence the
  control flow and is not modelled.
\<close>

definition verifyIdentity ::
  "sdk_config \<Rightarrow> (nat \<Rightarrow> 'd http_result) \<Rightarrow> userData \<Rightarrow> sdk_state
     \<Rightarrow> (js_error + 'd option) \<times> sdk_state" where
  "verifyIdentity cfg server u st =
     (case validateUserData u of
        Some e \<Rightarrow> (Inl (handleError e ''verifyIdentity''), count_failure st)
      | None \<Rightarrow>
          (case httpClient_request cfg server None st of
             (Inl e, st1) \<Rightarrow>
               (Inl (handleError (AxiosError e) ''verifyIdentity''), count_failure st1)
           | (Inr d, st1) \<Rightarrow>
               if enableLogging cfg \<and> d = None
               then (Inl (handleError
                            (TypeError ''Cannot read properties of null (reading risk_level)'')
                            ''verifyIdentity''),
                     count_failure (count_success st1))
               else (Inr d, count_success st1)))"

definition getAssessmentHistory ::
  "sdk_config \<Rightarrow> (nat \<Rightarrow> 'd http_result) \<Rightarrow> sdk_state
     \<Rightarrow> (js_error + 'd option) \<times> sdk_state" where
  "getAssessmentHistory cfg server st =
     (case httpClient_request cfg server None st of
        (Inl e, st1) \<Rightarrow>
          (Inl (handleError (AxiosError e) ''getAssessmentHistory''), count_failure st1)
      | (Inr d, st1) \<Rightarrow> (Inr d, count_success st1))"

definition healthCheck ::
  "sdk_config \<Rightarrow> (nat \<Rightarrow> 'd http_result) \<Rightarrow> sdk_state
     \<Rightarrow> (js_error + 'd option) \<times> sdk_state" where
  "healthCheck cfg server st =
     (case httpClient_request cfg server None st of
        (Inl e, st1) \<Rightarrow> (Inl (handleError (AxiosError e) ''healthCheck''), count_failure st1)
      | (Inr d, st1) \<Rightarrow> (Inr d, count_success st1))"

section \<open>Risk assessments and fallback synthesis\<close>

text \<open>
  A risk assessment as the scoring service returns it and as \<open>createFallbackResponse\<close>
  builds it. Keys that the consumers read with \<open>?.\<close> or \<open>||\<close> are optional; \<open>metadata\<close> and
  \<open>proxycheck_data\<close> are JavaScript objects, kept as association lists from keys to values.
  \<open>recommendations\<close> is \<open>None\<close> when the answer has no such key or has something there
  that is no array: the middleware calls \<open>.map\<close> on it, which then throws. The factor list
  is only ever read as \<open>risk_factors || []\<close>, so a missing one is the empty list.
\<close>

datatype jsv = JBool bool | JNum int | JStr string

record risk_factor =
  factor :: string
  score :: int
  weight :: rat
  details :: string
  proxycheck_data :: "(string \<times> jsv) list"

record recommendation =
  action :: string
  priority :: string
  message :: string

record assessment =
  confidence_score :: "int option"
  risk_level :: "string option"
  risk_factors :: "risk_factor list"
  recommendations :: "recommendation list option"
  metadata :: "(string \<times> jsv) list"
  timestamp :: "string option"
  request_id :: "string option"
  api_version :: "string option"
  fallback :: "bool option"
  fallback_reason :: "string option"

text \<open>
  \<open>createFallbackResponse(userId, reason = 'service_unavailable')\<close>. The two calls of
  \<open>uuidv4()\<close> and the clock reading are arguments, in the order of evaluation:
  \<open>uuid_meta\<close> for \<open>metadata.request_id\<close>, \<open>now\<close> for \<open>timestamp\<close>, \<open>uuid_top\<close> for
  \<open>request_id\<close>. The body never reads \<open>userId\<close>.
\<close>

definition createFallbackResponse ::
  "idrock_config \<Rightarrow> string \<Rightarrow> string \<Rightarrow> string \<Rightarrow> string \<Rightarrow> string option \<Rightarrow> assessment" where
  "createFallbackResponse gc uuid_meta now uuid_top uid reason_arg =
     (let reason = (case reason_arg of None \<Rightarrow> ''service_unavailable'' | Some r \<Rightarrow> r) in
      \<lparr> confidence_score = Some 50,
        risk_level = Some (fallback_defaultRiskLevel gc),
        risk_factors =
          [\<lparr> factor = ''system_fallback'',
              score = 50,
              weight = 1,
              details = ''Risk assessment service unavailable: '' @ reason,
              proxycheck_data = [(''fallback'', JBool True)] \<rparr>],
        recommendations =
          Some [\<lparr> action = ''manual_review_recommended'',
                  priority = ''medium'',
                  message = ''Manual review recommended due to service unavailability'' \<rparr>],
        metadata =
          [(''processing_time_ms'', JNum 0),
           (''api_version'', JStr ''1.0.0-fallback''),
           (''request_id'', JStr (''fallback_'' @ take 12 uuid_meta)),
           (''mvp_scope'', JStr ''fallback_mode'')],
        timestamp = Some now,
        request_id = Some (''fallback_'' @ take 12 uuid_top),
        api_version = Some ''1.0.0-fallback'',
        fallback = Some True,
        fallback_reason = Some reason \<rparr>)"

section \<open>The audit log (models/SecurityLog.js)\<close>

text \<open>
  A row of \<open>security_logs\<close>. The generated \<open>id\<close> and the \<open>timestamp\<close> are left out, and of
  \<open>event_data\<close> the three keys that \<open>logRiskAssessment\<close> writes are kept.
\<close>

record security_event =
  event_type :: string
  user_id :: "string option"
  ip_address :: "string option"
  user_agent :: "string option"
  idrock_request_id :: "string option"
  log_risk_level :: string
  log_confidence_score :: "int option"
  action_taken :: string
  success :: bool
  event_risk_factors :: "risk_factor list"
  event_recommendations :: "recommendation list"
  event_metadata :: "(string \<times> jsv) list"
  processing_time_ms :: nat

definition ra_request_id :: "assessment option \<Rightarrow> string option" where
  "ra_request_id ra = js_or (case ra of None \<Rightarrow> None | Some a \<Rightarrow> request_id a) None"

definition ra_risk_level :: "assessment option \<Rightarrow> string" where
  "ra_risk_level ra =
     the (js_or (case ra of None \<Rightarrow> None | Some a \<Rightarrow> risk_level a) (Some ''UNKNOWN''))"

definition ra_confidence_score :: "assessment option \<Rightarrow> int option" where
  "ra_confidence_score ra =
     js_or_int (case ra of None \<Rightarrow> None | Some a \<Rightarrow> confidence_score a) None"

definition ra_recommendations :: "assessment option \<Rightarrow> recommendation list" where
  "ra_recommendations ra =
     (case ra of
        None \<Rightarrow> []
      | Some a \<Rightarrow> (case recommendations a of None \<Rightarrow> [] | Some rs \<Rightarrow> rs))"

text \<open>The rows built by \<open>logRiskAssessment\<close> (\<open>success\<close> defaults to \<open>true\<close>),
  \<open>logLoginAttempt\<close> and \<open>logCheckoutAttempt\<close>.\<close>

definition logRiskAssessment_row ::
  "string option \<Rightarrow> string option \<Rightarrow> string option \<Rightarrow> assessment option \<Rightarrow> nat
     \<Rightarrow> bool option \<Rightarrow> security_event" where
  "logRiskAssessment_row uid ip ua ra pt succ =
     \<lparr> event_type = ''risk_assessment'',
       user_id = js_or uid None,
       ip_address = ip,
       user_agent = ua,
       idrock_request_id = ra_request_id ra,
       log_risk_level = ra_risk_level ra,
       log_confidence_score = ra_confidence_score ra,
       action_taken = ''assessed'',
       success = (case succ of None \<Rightarrow> True | Some b \<Rightarrow> b),
       event_risk_factors = (case ra of None \<Rightarrow> [] | Some a \<Rightarrow> risk_factors a),
       event_recommendations = ra_recommendations ra,
       event_metadata = (case ra of None \<Rightarrow> [] | Some a \<Rightarrow> metadata a),
       processing_time_ms = pt \<rparr>"

definition logLoginAttempt_row ::
  "string option \<Rightarrow> string option \<Rightarrow> string option \<Rightarrow> bool \<Rightarrow> assessment option
     \<Rightarrow> string \<Rightarrow> nat \<Rightarrow> security_event" where
  "logLoginAttempt_row uid ip ua succ ra taken pt =
     \<lparr> event_type = ''login_attempt'',
       user_id = js_or uid None,
       ip_address = ip,
       user_agent = ua,
       idrock_request_id = ra_request_id ra,
       log_risk_level = ra_risk_level ra,
       log_confidence_score = ra_confidence_score ra,
       action_taken = taken,
       success = succ,
       event_risk_factors = (case ra of None \<Rightarrow> [] | Some a \<Rightarrow> risk_factors a),
       event_recommendations = ra_recommendations ra,
       event_metadata = [],
       processing_time_ms = pt \<rparr>"

definition logCheckoutAttempt_row ::
  "string option \<Rightarrow> string option \<Rightarrow> string option \<Rightarrow> bool \<Rightarrow> assessment option
     \<Rightarrow> string \<Rightarrow> nat \<Rightarrow> security_event" where
  "logCheckoutAttempt_row uid ip ua succ ra taken pt =
     \<lparr> event_type = ''checkout_attempt'',
       user_id = uid,
       ip_address = ip,
       user_agent = ua,
       idrock_request_id = ra_request_id ra,
       log_risk_level = ra_risk_level ra,
       log_confidence_score = ra_confidence_score ra,
       action_taken = taken,
       success = succ,
       event_risk_factors = (case ra of None \<Rightarrow> [] | Some a \<Rightarrow> risk_factors a),
       event_recommendations = ra_recommendations ra,
       event_metadata = [],
       processing_time_ms = pt \<rparr>"

section \<open>The security middleware (middleware/security.js)\<close>

subsection \<open>Requests, responses and the environment\<close>

text \<open>
  The parts of the Express request that the middleware reads, and, separately, the
  properties it sets on the request.
\<close>

record request =
  body_username :: "string option"
  body_email :: "string option"
  body_userId :: "string option"
  req_user_id :: "string option"
  req_ip :: "string option"
  connection_remoteAddress :: "string option"
  socket_remoteAddress :: "string option"
  connection_socket_remoteAddress :: "string option"
  header_User_Agent :: "string option"

record annotations =
  idrockAssessment :: "assessment option"
  processingTime :: "nat option"
  requiresAdditionalAuth :: bool
  requiresReview :: bool
  securityReasons :: "string list option"
  idrockServiceAvailable :: "bool option"
  riskActionType :: "string option"

definition no_annotations :: annotations where
  "no_annotations =
     \<lparr> idrockAssessment = None, processingTime = None, requiresAdditionalAuth = False,
       requiresReview = False, securityReasons = None, idrockServiceAvailable = None,
       riskActionType = None \<rparr>"

text \<open>The JSON body of a rejection; \<open>None\<close> is a key that the body does not have.\<close>

record response_body =
  body_error :: string
  body_code :: string
  body_riskLevel :: "string option"
  body_requestId :: "string option"
  body_message :: string

text \<open>How a middleware run ends when it does not throw: it calls \<open>next()\<close>, or it sends
  a response with a status and does not call \<open>next()\<close>.\<close>

datatype control = Next | Respond nat response_body

text \<open>
  What a run depends on outside the program: the scoring service, the user table
  (\<open>User.findByUsernameOrEmail\<close>, which may throw), whether the database accepts a row,
  the elapsed time read in the \<open>try\<close> block and in the \<open>catch\<close> block, and the
  identifiers and the time stamp drawn by fallback synthesis.
\<close>

record env =
  server :: "nat \<Rightarrow> assessment http_result"
  findByUsernameOrEmail :: "string \<Rightarrow> js_error + string option"
  create_ok :: "security_event \<Rightarrow> bool"
  elapsed_try :: nat
  elapsed_catch :: nat
  uuid_first :: string
  now_iso :: string
  uuid_second :: string

record world =
  sdk :: sdk_state
  security_logs :: "security_event list"
  ann :: annotations

definition world_init :: world where
  "world_init = \<lparr> sdk = sdk_init, security_logs = [], ann = no_annotations \<rparr>"

text \<open>\<open>SecurityLog.create\<close>: the row is appended, or the call throws.\<close>

definition SecurityLog_create :: "env \<Rightarrow> security_event \<Rightarrow> world \<Rightarrow> (js_error + unit) \<times> world" where
  "SecurityLog_create ev row w =
     (if create_ok ev row then (Inr (), w\<lparr>security_logs := security_logs w @ [row]\<rparr>)
      else (Inl (DatabaseError ''create failed''), w))"

subsection \<open>Helpers\<close>

definition getClientIP :: "request \<Rightarrow> string option" where
  "getClientIP req =
     js_or (req_ip req)
       (js_or (connection_remoteAddress req)
          (js_or (socket_remoteAddress req)
             (js_or (connection_socket_remoteAddress req) (Some ''127.0.0.1''))))"

definition extractLoginUserData :: "request \<Rightarrow> userData" where
  "extractLoginUserData req =
     \<lparr> userId = js_or (body_username req) (js_or (body_email req) (Some ''anonymous'')),
       ipAddress = getClientIP req,
       userAgent = js_or (header_User_Agent req) (Some ''unknown''),
       actionType = Some ''login'' \<rparr>"

definition extractCheckoutUserData :: "request \<Rightarrow> userData" where
  "extractCheckoutUserData req =
     \<lparr> userId = js_or (req_user_id req) (js_or (body_userId req) (Some ''unknown'')),
       ipAddress = getClientIP req,
       userAgent = js_or (header_User_Agent req) (Some ''unknown''),
       actionType = Some ''checkout'' \<rparr>"

text \<open>\<open>_resolveUserId\<close>: \<open>null\<close> for no identifier, for \<open>'anonymous'\<close>, for an unknown user
  and for a failed lookup.\<close>

definition resolveUserId :: "env \<Rightarrow> string option \<Rightarrow> string option" where
  "resolveUserId ev identifier =
     (if \<not> js_truthy identifier \<or> identifier = Some ''anonymous'' then None
      else (case findByUsernameOrEmail ev (the identifier) of
              Inl _ \<Rightarrow> None
            | Inr u \<Rightarrow> u))"

text \<open>The middleware's client is \<open>new IDRockNodeSDK()\<close>: no options, so logging is on.\<close>

definition middleware_sdk :: "idrock_config \<Rightarrow> sdk_config" where
  "middleware_sdk gc = IDRockNodeSDK_config gc no_options"

definition annotate :: "(annotations \<Rightarrow> annotations) \<Rightarrow> world \<Rightarrow> world" where
  "annotate f w = w\<lparr>ann := f (ann w)\<rparr>"

subsection \<open>protectLogin\<close>

definition login_unavailable :: response_body where
  "login_unavailable =
     \<lparr> body_error = ''Security service temporarily unavailable'',
       body_code = ''SERVICE_UNAVAILABLE'',
       body_riskLevel = None,
       body_requestId = None,
       body_message = ''Please try again in a few minutes'' \<rparr>"

definition login_blocked :: "assessment \<Rightarrow> response_body" where
  "login_blocked a =
     \<lparr> body_error = ''Login blocked for security reasons'',
       body_code = ''SECURITY_BLOCK'',
       body_riskLevel = risk_level a,
       body_requestId = request_id a,
       body_message = ''Your login attempt has been blocked due to security concerns. Please contact support if you believe this is an error.'' \<rparr>"

text \<open>
  The \<open>catch\<close> block of \<open>protectLogin\<close>. The error caught is only printed. The fallback is
  logged by a call of \<open>logRiskAssessment\<close> that stands outside any inner \<open>try\<close>, so a failed
  write leaves the block as an exception.
\<close>

definition protectLogin_catch ::
  "idrock_config \<Rightarrow> env \<Rightarrow> request \<Rightarrow> world \<Rightarrow> (js_error + control) \<times> world" where
  "protectLogin_catch gc ev req w =
     (if fallback_enabled gc then
        (let fb = createFallbackResponse gc (uuid_first ev) (now_iso ev) (uuid_second ev)
                    (the (js_or (body_username req) (Some ''unknown''))) (Some ''service_error'');
             w1 = annotate (\<lambda>a. a\<lparr>idrockAssessment := Some fb,
                                   idrockServiceAvailable := Some False,
                                   processingTime := Some (elapsed_catch ev)\<rparr>) w
         in case SecurityLog_create ev
                   (logRiskAssessment_row (js_or (body_username req) None) (getClientIP req)
                      (header_User_Agent req) (Some fb) (elapsed_catch ev) (Some False)) w1 of
              (Inl e, w2) \<Rightarrow> (Inl e, w2)
            | (Inr _, w2) \<Rightarrow>
                if fallback_allowProceed gc
                then (Inr Next, annotate (\<lambda>a. a\<lparr>requiresAdditionalAuth := True\<rparr>) w2)
                else (Inr (Respond 503 login_unavailable), w2))
      else (Inr (Respond 503 login_unavailable), w))"

text \<open>
  \<open>protectLogin\<close>. Both log writes of the \<open>try\<close> block stand in an inner \<open>try\<close> whose
  \<open>catch\<close> only prints, so their failure is dropped. Reading \<open>riskAssessment.risk_level\<close>
  of a \<open>null\<close> assessment throws into the outer \<open>catch\<close>, and so does, in the \<open>REVIEW\<close>
  case, \<open>riskAssessment.recommendations.map\<close> on an assessment without a recommendation
  list, after \<open>requiresAdditionalAuth\<close> has been set. The \<open>switch\<close> has no default.
\<close>

definition protectLogin ::
  "idrock_config \<Rightarrow> env \<Rightarrow> request \<Rightarrow> world \<Rightarrow> (js_error + control) \<times> world" where
  "protectLogin gc ev req w =
     (if \<not> integration_enabled gc then (Inr Next, w)
      else
        (let u = extractLoginUserData req in
         case verifyIdentity (middleware_sdk gc) (server ev) u (sdk w) of
           (Inl e, s1) \<Rightarrow> protectLogin_catch gc ev req (w\<lparr>sdk := s1\<rparr>)
         | (Inr d, s1) \<Rightarrow>
             (let w1 = annotate (\<lambda>a. a\<lparr>idrockAssessment := d,
                                       processingTime := Some (elapsed_try ev)\<rparr>)
                         (w\<lparr>sdk := s1\<rparr>);
                  w2 = snd (SecurityLog_create ev
                              (logRiskAssessment_row (resolveUserId ev (userId u)) (ipAddress u)
                                 (userAgent u) d (elapsed_try ev) None) w1)
              in case d of
                   None \<Rightarrow> protectLogin_catch gc ev req w2
                 | Some a \<Rightarrow>
                     if risk_level a = Some ''DENY'' then
                       (Inr (Respond 403 (login_blocked a)),
                        snd (SecurityLog_create ev
                               (logLoginAttempt_row (resolveUserId ev (userId u)) (ipAddress u)
                                  (userAgent u) False d ''blocked'' (elapsed_try ev)) w2))
                     else if risk_level a = Some ''REVIEW'' then
                       (let w3 = annotate (\<lambda>a'. a'\<lparr>requiresAdditionalAuth := True\<rparr>) w2
                        in case recommendations a of
                             None \<Rightarrow> protectLogin_catch gc ev req w3
                           | Some rs \<Rightarrow>
                               (Inr Next,
                                annotate (\<lambda>a'. a'\<lparr>securityReasons := Some (map message rs)\<rparr>) w3))
                     else (Inr Next, w2))))"

subsection \<open>protectCheckout\<close>

definition checkout_unavailable :: response_body where
  "checkout_unavailable =
     \<lparr> body_error = ''Security verification required'',
       body_code = ''SECURITY_VERIFICATION_REQUIRED'',
       body_riskLevel = None,
       body_requestId = None,
       body_message = ''Transaction cannot be processed at this time. Please try again later.'' \<rparr>"

definition checkout_blocked :: "assessment \<Rightarrow> response_body" where
  "checkout_blocked a =
     \<lparr> body_error = ''Transaction blocked for security reasons'',
       body_code = ''TRANSACTION_BLOCKED'',
       body_riskLevel = risk_level a,
       body_requestId = request_id a,
       body_message = ''Your transaction has been blocked due to security concerns. Please contact support.'' \<rparr>"

text \<open>The \<open>catch\<close> block of \<open>protectCheckout\<close>: it writes no log row and does not read
  \<open>allowProceed\<close>.\<close>

definition protectCheckout_catch ::
  "idrock_config \<Rightarrow> env \<Rightarrow> request \<Rightarrow> world \<Rightarrow> (js_error + control) \<times> world" where
  "protectCheckout_catch gc ev req w =
     (if fallback_enabled gc then
        (let fb = createFallbackResponse gc (uuid_first ev) (now_iso ev) (uuid_second ev)
                    (the (js_or (req_user_id req) (Some ''unknown'')))
                    (Some ''checkout_service_error'')
         in (Inr Next,
             annotate (\<lambda>a. a\<lparr>idrockAssessment := Some fb,
                              idrockServiceAvailable := Some False,
                              processingTime := Some (elapsed_catch ev),
                              requiresReview := True,
                              securityReasons :=
                                Some [''Security service temporarily unavailable - manual review required'']\<rparr>) w))
      else (Inr (Respond 503 checkout_unavailable), w))"

text \<open>\<open>protectCheckout\<close>. Here the log writes stand directly in the outer \<open>try\<close>: a failed
  write enters the \<open>catch\<close> block, as does a \<open>REVIEW\<close> assessment without a recommendation
  list, after \<open>requiresReview\<close> has been set.\<close>

definition protectCheckout ::
  "idrock_config \<Rightarrow> env \<Rightarrow> request \<Rightarrow> world \<Rightarrow> (js_error + control) \<times> world" where
  "protectCheckout gc ev req w =
     (if \<not> integration_enabled gc then (Inr Next, w)
      else
        (let u = extractCheckoutUserData req in
         case verifyIdentity (middleware_sdk gc) (server ev) u (sdk w) of
           (Inl e, s1) \<Rightarrow> protectCheckout_catch gc ev req (w\<lparr>sdk := s1\<rparr>)
         | (Inr d, s1) \<Rightarrow>
             (let w1 = annotate (\<lambda>a. a\<lparr>idrockAssessment := d,
                                       processingTime := Some (elapsed_try ev)\<rparr>)
                         (w\<lparr>sdk := s1\<rparr>)
              in case SecurityLog_create ev
                        (logRiskAssessment_row (userId u) (ipAddress u) (userAgent u) d
                           (elapsed_try ev) None) w1 of
                   (Inl e, w2) \<Rightarrow> protectCheckout_catch gc ev req w2
                 | (Inr _, w2) \<Rightarrow>
                     (case d of
                        None \<Rightarrow> protectCheckout_catch gc ev req w2
                      | Some a \<Rightarrow>
                          if risk_level a = Some ''DENY'' then
                            (case SecurityLog_create ev
                                    (logCheckoutAttempt_row (userId u) (ipAddress u) (userAgent u)
                                       False d ''blocked'' (elapsed_try ev)) w2 of
                               (Inl e, w3) \<Rightarrow> protectCheckout_catch gc ev req w3
                             | (Inr _, w3) \<Rightarrow> (Inr (Respond 403 (checkout_blocked a)), w3))
                          else if risk_level a = Some ''REVIEW'' then
                            (let w3 = annotate (\<lambda>a'. a'\<lparr>requiresReview := True\<rparr>) w2
                             in case recommendations a of
                                  None \<Rightarrow> protectCheckout_catch gc ev req w3
                                | Some rs \<Rightarrow>
                                    (Inr Next,
                                     annotate (\<lambda>a'. a'\<lparr>securityReasons := Some (map message rs)\<rparr>)
                                       w3))
                          else (Inr Next, w2)))))"

subsection \<open>assessRisk\<close>

text \<open>
  The middleware returned by \<open>assessRisk(actionType)\<close>. \<open>const userData\<close> is declared inside
  the \<open>try\<close> block, so it is not in scope in the \<open>catch\<close> block: the argument
  \<open>userData?.userId || 'unknown'\<close> of the fallback call there refers to an undeclared
  name, and evaluating it throws a \<open>ReferenceError\<close> before \<open>createFallbackResponse\<close> is
  called, before the request is annotated and before \<open>next()\<close>. No path writes a log row.
\<close>

definition assessRisk ::
  "idrock_config \<Rightarrow> env \<Rightarrow> string \<Rightarrow> request \<Rightarrow> world \<Rightarrow> (js_error + control) \<times> world" where
  "assessRisk gc ev actType req w =
     (if \<not> integration_enabled gc then (Inr Next, w)
      else
        (let u = \<lparr> userId = js_or (req_user_id req) (js_or (body_userId req) (Some ''anonymous'')),
                   ipAddress = getClientIP req,
                   userAgent = js_or (header_User_Agent req) (Some ''unknown''),
                   actionType = Some actType \<rparr>
         in case verifyIdentity (middleware_sdk gc) (server ev) u (sdk w) of
              (Inl e, s1) \<Rightarrow> (Inl (ReferenceError ''userData is not defined''), w\<lparr>sdk := s1\<rparr>)
            | (Inr d, s1) \<Rightarrow>
                (Inr Next,
                 annotate (\<lambda>a. a\<lparr>idrockAssessment := d, riskActionType := Some actType\<rparr>)
                   (w\<lparr>sdk := s1\<rparr>))))"

section \<open>The fingerprint collector (public/js/idrock-sdk.js)\<close>

text \<open>
  A JavaScript string is a sequence of 16-bit code units. \<open>Promise.allSettled\<close> gives, for
  each of the six sources in the order of the array, a fulfilled result with its value or a
  rejected one.
\<close>

type_synonym js_string = "16 word list"


definition js_str :: "string \<Rightarrow> js_string" where
  "js_str s = map (\<lambda>c. of_nat (of_char c)) s"

text \<open>
  \<open>_hashString\<close>. \<open>hash << 5\<close> and \<open>hash & hash\<close> work on 32-bit integers, and the
  subtraction and addition between them are exact, so the loop is arithmetic modulo
  \<open>2^32\<close> on a value read as signed; \<open>Math.abs(hash).toString(36)\<close> prints its magnitude.
\<close>

definition hashStep :: "32 word \<Rightarrow> 16 word \<Rightarrow> 32 word" where
  "hashStep h c = (push_bit 5 h - h) + ucast c"

definition hashString :: "js_string \<Rightarrow> string" where
  "hashString str = toString_radix 36 (nat \<bar>sint (foldl hashStep 0 str)\<bar>)"















section \<open>Reference notions and sample inputs\<close>

text \<open>
  The textual syntax of an IP address, for comparison with \<open>ipRegex_test\<close>: an IPv4 address
  in dotted-decimal notation is four decimal numbers of one to three digits, each at most
  255, separated by dots (the grammar of \<open>dec-octet\<close> in RFC 3986 admits no larger number).
  For IPv6 only a necessary condition is used: every textual form of an IPv6 address
  contains a colon. So a string that fails \<open>ip_syntax_possible\<close> is no IP address in either
  syntax.
\<close>

definition decimal_value :: "string \<Rightarrow> nat" where
  "decimal_value g = foldl (\<lambda>n c. 10 * n + (of_char c - of_char CHR ''0'')) 0 g"

definition ipv4_syntax :: "string \<Rightarrow> bool" where
  "ipv4_syntax s =
     (length (split_on CHR ''.'' s) = 4 \<and>
      list_all (\<lambda>g. 1 \<le> length g \<and> length g \<le> 3 \<and> list_all is_digit g \<and> decimal_value g \<le> 255)
        (split_on CHR ''.'' s))"

definition ip_syntax_possible :: "string \<Rightarrow> bool" where
  "ip_syntax_possible s = (ipv4_syntax s \<or> CHR '':'' \<in> set s)"

text \<open>The rows of the log that are risk assessments.\<close>

definition risk_rows :: "world \<Rightarrow> security_event list" where
  "risk_rows w = filter (\<lambda>r. event_type r = ''risk_assessment'') (security_logs w)"

text \<open>A scoring service that answers every request with 503, one that answers every
  request with the body \<open>null\<close>, and one that answers every request with an ALLOW assessment
  of score 85.\<close>

definition always_503 :: "nat \<Rightarrow> 'd http_result" where
  "always_503 n = Rejected (HttpFailure 503 ''Service Unavailable'' None)"

definition always_null :: "nat \<Rightarrow> 'd http_result" where
  "always_null n = Resolved None"

definition score_85 :: assessment where
  "score_85 =
     \<lparr> confidence_score = Some 85, risk_level = Some ''ALLOW'', risk_factors = [],
       recommendations = Some [], metadata = [], timestamp = Some ''2025-01-01T00:00:00.000Z'',
       request_id = Some ''req_85'', api_version = Some ''1.0.0'', fallback = None,
       fallback_reason = None \<rparr>"

definition always_allow :: "nat \<Rightarrow> assessment http_result" where
  "always_allow n = Resolved (Some score_85)"

definition default_sdk :: sdk_config where
  "default_sdk = IDRockNodeSDK_config (idrockConfig True) no_options"

definition login_u1 :: userData where
  "login_u1 =
     \<lparr> userId = Some ''u1'', ipAddress = Some ''192.168.1.100'',
       userAgent = Some ''Mozilla/5.0'', actionType = Some ''login'' \<rparr>"

definition login_not_an_ip :: userData where
  "login_not_an_ip = login_u1\<lparr>ipAddress := Some ''not-an-ip''\<rparr>"

definition login_octets_999 :: userData where
  "login_octets_999 = login_u1\<lparr>ipAddress := Some ''999.999.999.999''\<rparr>"

definition request_u1 :: request where
  "request_u1 =
     \<lparr> body_username = Some ''u1'', body_email = None, body_userId = None,
       req_user_id = Some ''u1'', req_ip = Some ''192.168.1.100'',
       connection_remoteAddress = Some ''192.168.1.100'',
       socket_remoteAddress = Some ''192.168.1.100'',
       connection_socket_remoteAddress = None,
       header_User_Agent = Some ''Mozilla/5.0'' \<rparr>"

definition request_loopback6 :: request where
  "request_loopback6 = request_u1\<lparr>req_ip := Some ''::1''\<rparr>"

definition env_of :: "(nat \<Rightarrow> assessment http_result) \<Rightarrow> env" where
  "env_of srv =
     \<lparr> server = srv,
       findByUsernameOrEmail = (\<lambda>_. Inr (Some ''7d444840-9dc0-11d1-b245-5ffdce74fad2'')),
       create_ok = (\<lambda>_. True),
       elapsed_try = 12,
       elapsed_catch = 15,
       uuid_first = ''3b241101-e2bb-4255-8caf-4136c566a962'',
       now_iso = ''2025-01-01T00:00:00.000Z'',
       uuid_second = ''9f8c2d1e-5a6b-4c7d-8e9f-0a1b2c3d4e5f'' \<rparr>"

definition blocking_config :: idrock_config where
  "blocking_config = (idrockConfig True)\<lparr>fallback_allowProceed := False\<rparr>"

text \<open>The fallback assessments that the two \<open>catch\<close> blocks build, and the row that the
  \<open>catch\<close> block of \<open>protectLogin\<close> writes for its fallback.\<close>

definition login_fallback :: "idrock_config \<Rightarrow> env \<Rightarrow> request \<Rightarrow> assessment" where
  "login_fallback gc ev req =
     createFallbackResponse gc (uuid_first ev) (now_iso ev) (uuid_second ev)
       (the (js_or (body_username req) (Some ''unknown''))) (Some ''service_error'')"

definition login_fallback_row :: "idrock_config \<Rightarrow> env \<Rightarrow> request \<Rightarrow> security_event" where
  "login_fallback_row gc ev req =
     logRiskAssessment_row (js_or (body_username req) None) (getClientIP req)
       (header_User_Agent req) (Some (login_fallback gc ev req)) (elapsed_catch ev) (Some False)"

definition checkout_fallback :: "idrock_config \<Rightarrow> env \<Rightarrow> request \<Rightarrow> assessment" where
  "checkout_fallback gc ev req =
     createFallbackResponse gc (uuid_first ev) (now_iso ev) (uuid_second ev)
       (the (js_or (req_user_id req) (Some ''unknown''))) (Some ''checkout_service_error'')"

text \<open>The error and the client states that the sample runs end in.\<close>

definition error_503 :: js_error where
  "error_503 =
     IDRockAPIError ''Failed to verifyIdentity: HTTP 503 Service Unavailable''
       (Some (AxiosError (HttpFailure 503 ''Service Unavailable'' None))) (Some 503)"

definition sdk_after_failure :: sdk_state where
  "sdk_after_failure =
     \<lparr> totalRequests = 1, successfulRequests = 0, failedRequests = 1, sent = 1, slept = [] \<rparr>"


text \<open>The reason a fallback assessment documents, an assessment with its time stamp and its
  two identifiers erased, and the values of the fulfilled results in the order of the
  sources.\<close>

definition reason_or_default :: "string option \<Rightarrow> string" where
  "reason_or_default r = (case r of None \<Rightarrow> ''service_unavailable'' | Some x \<Rightarrow> x)"

definition without_ids :: "assessment \<Rightarrow> assessment" where
  "without_ids r =
     r\<lparr>timestamp := None, request_id := None,
       metadata := filter (\<lambda>kv. fst kv \<noteq> ''request_id'') (metadata r)\<rparr>"








definition no_fallback_config :: idrock_config where
  "no_fallback_config = (idrockConfig True)\<lparr>fallback_enabled := False\<rparr>"

definition env_refusing :: "(nat \<Rightarrow> assessment http_result) \<Rightarrow> env" where
  "env_refusing srv = (env_of srv)\<lparr>create_ok := (\<lambda>_. False)\<rparr>"



section \<open>Properties of the Node SDK\<close>

subsection \<open>The interceptor\<close>

text \<open>
  A request configuration that comes from \<open>post\<close> or \<open>get\<close> has no \<open>_retryCount\<close>. For it the
  middle conjunct of \<open>shouldRetry\<close> compares \<open>undefined\<close> with a number and is false, so the
  interceptor rejects after the first failure: one request, no delay.
\<close>

lemma shouldRetry_undefined: "\<not> shouldRetry cfg None e"
  by (simp add: shouldRetry_def js_lt_num_def)

lemma httpClient_request_None:
  "httpClient_request cfg srv None st =
     (case srv (sent st) of
        Resolved d \<Rightarrow> (Inr d, st\<lparr>sent := sent st + 1\<rparr>)
      | Rejected e \<Rightarrow> (Inl e, st\<lparr>sent := sent st + 1\<rparr>))"
  by (simp add: httpClient_request.simps [of cfg srv None st] shouldRetry_undefined
        split: http_result.splits)

lemma httpClient_request_None_sent:
  "sent (snd (httpClient_request cfg srv None st)) = sent st + 1"
  by (simp add: httpClient_request_None split: http_result.splits)

lemma httpClient_request_None_slept:
  "slept (snd (httpClient_request cfg srv None st)) = slept st"
  by (simp add: httpClient_request_None split: http_result.splits)

lemma httpClient_request_None_stats:
  "totalRequests (snd (httpClient_request cfg srv None st)) = totalRequests st \<and>
   successfulRequests (snd (httpClient_request cfg srv None st)) = successfulRequests st \<and>
   failedRequests (snd (httpClient_request cfg srv None st)) = failedRequests st"
  by (simp add: httpClient_request_None split: http_result.splits)

subsection \<open>Validation and the outcome of a call\<close>

lemma validateUserData_None_iff:
  "validateUserData u = None \<longleftrightarrow>
     js_truthy (userId u) \<and> js_truthy (ipAddress u) \<and> js_truthy (userAgent u) \<and>
     js_truthy (actionType u) \<and> the (actionType u) \<in> set validActions \<and>
     ipRegex_test (the (ipAddress u))"
  by (simp add: validateUserData_def)

lemma validateUserData_error_shape:
  "validateUserData u = Some e \<Longrightarrow> \<exists>m. e = IDRockAPIError m None None"
  by (auto simp: validateUserData_def split: if_splits)

lemma handleError_IDRockAPIError:
  "handleError (IDRockAPIError m orig code) operation = IDRockAPIError m orig code"
  by (simp add: handleError_def)

lemma verifyIdentity_invalid:
  "validateUserData u = Some e \<Longrightarrow> verifyIdentity cfg srv u st = (Inl e, count_failure st)"
  by (auto simp: verifyIdentity_def handleError_IDRockAPIError dest: validateUserData_error_shape)


lemma verifyIdentity_valid_rejected:
  "validateUserData u = None \<Longrightarrow> srv (sent st) = Rejected f \<Longrightarrow>
   verifyIdentity cfg srv u st =
     (Inl (handleError (AxiosError f) ''verifyIdentity''), count_failure (st\<lparr>sent := sent st + 1\<rparr>))"
  by (simp add: verifyIdentity_def httpClient_request_None)

lemma verifyIdentity_logging_not_null:
  "enableLogging cfg \<Longrightarrow> verifyIdentity cfg srv u st = (Inr d, s1) \<Longrightarrow> d \<noteq> None"
  by (auto simp: verifyIdentity_def httpClient_request_None
        split: option.splits http_result.splits if_splits)

lemma verifyIdentity_single_attempt:
  "sent (snd (verifyIdentity cfg srv u st)) \<le> sent st + 1 \<and>
   slept (snd (verifyIdentity cfg srv u st)) = slept st"
  by (simp add: verifyIdentity_def httpClient_request_None count_success_def count_failure_def
        split: option.splits http_result.splits)

subsection \<open>The counters\<close>

text \<open>
  The three calls keep \<open>totalRequests = successfulRequests + failedRequests\<close>, and the two
  calls without a log line count each call once.
\<close>

lemma count_success_invariant:
  "totalRequests st = successfulRequests st + failedRequests st \<Longrightarrow>
   totalRequests (count_success st) = successfulRequests (count_success st) + failedRequests (count_success st)"
  by (simp add: count_success_def)

lemma count_failure_invariant:
  "totalRequests st = successfulRequests st + failedRequests st \<Longrightarrow>
   totalRequests (count_failure st) = successfulRequests (count_failure st) + failedRequests (count_failure st)"
  by (simp add: count_failure_def)

lemma httpClient_request_None_invariant:
  "totalRequests st = successfulRequests st + failedRequests st \<Longrightarrow>
   totalRequests (snd (httpClient_request cfg srv None st)) =
     successfulRequests (snd (httpClient_request cfg srv None st)) +
     failedRequests (snd (httpClient_request cfg srv None st))"
  by (simp add: httpClient_request_None_stats)

lemma verifyIdentity_invariant:
  assumes "totalRequests st = successfulRequests st + failedRequests st"
  shows "totalRequests (snd (verifyIdentity cfg srv u st)) =
           successfulRequests (snd (verifyIdentity cfg srv u st)) +
           failedRequests (snd (verifyIdentity cfg srv u st))"
proof (cases "validateUserData u")
  case (Some e)
  then show ?thesis
    using assms by (simp add: verifyIdentity_def count_failure_invariant)
next
  case None
  obtain r st1 where r: "httpClient_request cfg srv None st = (r, st1)"
    by (cases "httpClient_request cfg srv None st")
  have "totalRequests st1 = successfulRequests st1 + failedRequests st1"
    using httpClient_request_None_invariant [OF assms, of cfg srv] r by simp
  then show ?thesis
    using None r
    by (cases r)
       (simp_all add: verifyIdentity_def count_failure_invariant count_success_invariant)
qed

lemma getAssessmentHistory_invariant:
  assumes "totalRequests st = successfulRequests st + failedRequests st"
  shows "totalRequests (snd (getAssessmentHistory cfg srv st)) =
           successfulRequests (snd (getAssessmentHistory cfg srv st)) +
           failedRequests (snd (getAssessmentHistory cfg srv st))"
proof -
  obtain r st1 where r: "httpClient_request cfg srv None st = (r, st1)"
    by (cases "httpClient_request cfg srv None st")
  have "totalRequests st1 = successfulRequests st1 + failedRequests st1"
    using httpClient_request_None_invariant [OF assms, of cfg srv] r by simp
  then show ?thesis
    using r
    by (cases r)
       (simp_all add: getAssessmentHistory_def count_failure_invariant count_success_invariant)
qed

lemma healthCheck_invariant:
  assumes "totalRequests st = successfulRequests st + failedRequests st"
  shows "totalRequests (snd (healthCheck cfg srv st)) =
           successfulRequests (snd (healthCheck cfg srv st)) +
           failedRequests (snd (healthCheck cfg srv st))"
proof -
  obtain r st1 where r: "httpClient_request cfg srv None st = (r, st1)"
    by (cases "httpClient_request cfg srv None st")
  have "totalRequests st1 = successfulRequests st1 + failedRequests st1"
    using httpClient_request_None_invariant [OF assms, of cfg srv] r by simp
  then show ?thesis
    using r
    by (cases r)
       (simp_all add: healthCheck_def count_failure_invariant count_success_invariant)
qed

lemma getAssessmentHistory_counts_once:
  "totalRequests (snd (getAssessmentHistory cfg srv st)) = totalRequests st + 1 \<and>
   successfulRequests (snd (getAssessmentHistory cfg srv st)) +
     failedRequests (snd (getAssessmentHistory cfg srv st)) =
   successfulRequests st + failedRequests st + 1"
  by (simp add: getAssessmentHistory_def httpClient_request_None count_success_def
        count_failure_def split: http_result.splits)

lemma healthCheck_counts_once:
  "totalRequests (snd (healthCheck cfg srv st)) = totalRequests st + 1 \<and>
   successfulRequests (snd (healthCheck cfg srv st)) +
     failedRequests (snd (healthCheck cfg srv st)) =
   successfulRequests st + failedRequests st + 1"
  by (simp add: healthCheck_def httpClient_request_None count_success_def
        count_failure_def split: http_result.splits)

lemma verifyIdentity_counts_once_unless_null:
  "\<not> (enableLogging cfg \<and> validateUserData u = None \<and> srv (sent st) = Resolved None) \<Longrightarrow>
   totalRequests (snd (verifyIdentity cfg srv u st)) = totalRequests st + 1"
  by (auto simp: verifyIdentity_def httpClient_request_None count_success_def
        count_failure_def split: http_result.splits option.splits)

subsection \<open>The sample inputs\<close>

lemma default_sdk_values:
  "retryAttempts default_sdk = 3" "retryDelay default_sdk = 1000" "enableLogging default_sdk"
  by (simp_all add: default_sdk_def IDRockNodeSDK_config_def idrockConfig_def no_options_def
        js_or_num_def)

lemma shipped_config_values:
  "integration_enabled (idrockConfig True)" "fallback_enabled (idrockConfig True)"
  "fallback_allowProceed (idrockConfig True)"
  "fallback_defaultRiskLevel (idrockConfig b) = ''REVIEW''"
  by (simp_all add: idrockConfig_def)

lemma blocking_config_values:
  "integration_enabled blocking_config" "fallback_enabled blocking_config"
  "\<not> fallback_allowProceed blocking_config"
  by (simp_all add: blocking_config_def idrockConfig_def)

lemma always_simps:
  "always_allow n = Resolved (Some score_85)"
  "always_503 n = Rejected (HttpFailure 503 ''Service Unavailable'' None)"
  by (simp_all add: always_allow_def always_503_def)

lemma validate_login_u1: "validateUserData login_u1 = None"
  by (simp add: validateUserData_def login_u1_def js_truthy_def validActions_def
        ipRegex_test_def is_digit_def)

lemma handleError_503:
  "handleError (AxiosError (HttpFailure 503 ''Service Unavailable'' None)) ''verifyIdentity'' =
     IDRockAPIError ''Failed to verifyIdentity: HTTP 503 Service Unavailable''
       (Some (AxiosError (HttpFailure 503 ''Service Unavailable'' None))) (Some 503)"
proof -
  have "toString_radix 10 503 = ''503''" by code_simp
  then show ?thesis by (simp add: handleError_def)
qed

subsection \<open>Claims about the SDK\<close>

text \<open>
  Claim C1 says that a \<open>verifyIdentity\<close> call that fails for good with a network error or a
  5xx answer makes exactly the configured number of retries (3 by default) before it
  signals failure, waiting \<open>base_delay * 2^(attempt-1)\<close> between attempts. The code does
  not: with the default client (three retries, base delay 1000) and a service that answers
  every request with 503, valid input leads to one request on the wire, no retry and no
  delay, and the call fails. The guard of the interceptor is false on the first failure.
\<close>

theorem verifyIdentity_no_retry_on_503:
  "verifyIdentity default_sdk (always_503 :: nat \<Rightarrow> assessment http_result) login_u1 sdk_init =
     (Inl (IDRockAPIError ''Failed to verifyIdentity: HTTP 503 Service Unavailable''
             (Some (AxiosError (HttpFailure 503 ''Service Unavailable'' None))) (Some 503)),
      \<lparr> totalRequests = 1, successfulRequests = 0, failedRequests = 1, sent = 1, slept = [] \<rparr>)
   \<and> retryAttempts default_sdk = 3 \<and> retryDelay default_sdk = 1000"
proof -
  have "toString_radix 10 503 = ''503''" by code_simp
  then show ?thesis
    by (simp add: verifyIdentity_def validate_login_u1 httpClient_request_None always_503_def
          handleError_def count_failure_def sdk_init_def default_sdk_values)
qed

text \<open>
  Claim C2, as amended: for every identity context in which \<open>userId\<close>, \<open>ipAddress\<close>,
  \<open>userAgent\<close> or \<open>actionType\<close> is missing or empty, or whose \<open>actionType\<close> is none of
  \<open>login\<close>, \<open>checkout\<close>, \<open>sensitive_action\<close>, or whose \<open>ipAddress\<close> does not match the
  client's basic pattern (four dot-separated groups of one to three digits, or eight
  colon-separated groups of one to four hexadecimal digits), \<open>verifyIdentity\<close> fails at once
  with an \<open>IDRockAPIError\<close> that has no status code and no original error, and puts no
  request on the wire and waits for nothing.
\<close>

theorem verifyIdentity_invalid_input_not_sent:
  assumes "\<not> js_truthy (userId u) \<or> \<not> js_truthy (ipAddress u) \<or> \<not> js_truthy (userAgent u) \<or>
           \<not> js_truthy (actionType u) \<or> the (actionType u) \<notin> set validActions \<or>
           \<not> ipRegex_test (the (ipAddress u))"
  shows "\<exists>m. verifyIdentity cfg srv u st = (Inl (IDRockAPIError m None None), count_failure st)
           \<and> sent (count_failure st) = sent st \<and> slept (count_failure st) = slept st"
proof -
  from assms have "validateUserData u \<noteq> None" by (simp add: validateUserData_None_iff)
  then obtain e where e: "validateUserData u = Some e" by auto
  then obtain m where "e = IDRockAPIError m None None"
    using validateUserData_error_shape by blast
  with e show ?thesis
    by (simp add: verifyIdentity_invalid count_failure_def)
qed

text \<open>The amended claim C2 at the identity context with the address \<open>not-an-ip\<close>.\<close>

theorem verifyIdentity_invalid_input_not_sent_witness:
  "\<not> ipRegex_test (the (ipAddress login_not_an_ip)) \<and>
   (\<exists>m. verifyIdentity default_sdk always_allow login_not_an_ip sdk_init =
          (Inl (IDRockAPIError m None None), count_failure sdk_init)
        \<and> sent (count_failure sdk_init) = sent sdk_init
        \<and> slept (count_failure sdk_init) = slept sdk_init)"
proof -
  have bad: "\<not> ipRegex_test (the (ipAddress login_not_an_ip))"
    by (simp add: login_not_an_ip_def login_u1_def ipRegex_test_def is_digit_def is_hex_def)
  then show ?thesis
    using verifyIdentity_invalid_input_not_sent [of login_not_an_ip default_sdk always_allow sdk_init]
    by blast
qed

text \<open>
  Claim C2 as stated fails: \<open>999.999.999.999\<close> is no IP address in either syntax, yet an
  identity context with this address passes validation, and the request is sent.
\<close>

theorem verifyIdentity_sends_octets_999:
  "\<not> ip_syntax_possible ''999.999.999.999'' \<and>
   ipAddress login_octets_999 = Some ''999.999.999.999'' \<and>
   verifyIdentity default_sdk always_allow login_octets_999 sdk_init =
     (Inr (Some score_85),
      \<lparr> totalRequests = 1, successfulRequests = 1, failedRequests = 0, sent = 1, slept = [] \<rparr>)"
proof -
  have a: "\<not> ip_syntax_possible ''999.999.999.999''"
    by (simp add: ip_syntax_possible_def ipv4_syntax_def is_digit_def decimal_value_def)
  have b: "validateUserData login_octets_999 = None"
    by (simp add: validateUserData_def login_octets_999_def login_u1_def js_truthy_def
          validActions_def ipRegex_test_def is_digit_def)
  have c: "ipAddress login_octets_999 = Some ''999.999.999.999''"
    by (simp add: login_octets_999_def)
  have d: "verifyIdentity default_sdk always_allow login_octets_999 sdk_init =
     (Inr (Some score_85),
      \<lparr> totalRequests = 1, successfulRequests = 1, failedRequests = 0, sent = 1, slept = [] \<rparr>)"
    by (simp add: verifyIdentity_def b httpClient_request_None always_allow_def
          count_success_def sdk_init_def)
  from a c d show ?thesis by blast
qed

text \<open>
  Claim C10 says that each call of \<open>verifyIdentity\<close>, \<open>getAssessmentHistory\<close> and
  \<open>healthCheck\<close> adds exactly one to \<open>totalRequests\<close> and to exactly one of
  \<open>successfulRequests\<close> and \<open>failedRequests\<close>. The sum invariant holds (lemmas above), but
  one call can count twice: with logging enabled, as it is by default, and a service that
  answers 200 with the body \<open>null\<close>, \<open>verifyIdentity\<close> counts a success, then throws in its
  log line, and its \<open>catch\<close> block counts a failure as well.
\<close>

theorem verifyIdentity_null_body_counts_twice:
  "verifyIdentity default_sdk (always_null :: nat \<Rightarrow> assessment http_result) login_u1 sdk_init =
     (Inl (IDRockAPIError
             ''Failed to verifyIdentity: Cannot read properties of null (reading risk_level)''
             (Some (TypeError ''Cannot read properties of null (reading risk_level)'')) None),
      \<lparr> totalRequests = 2, successfulRequests = 1, failedRequests = 1, sent = 1, slept = [] \<rparr>)"
  by (simp add: verifyIdentity_def validate_login_u1 httpClient_request_None always_null_def
        handleError_def count_failure_def count_success_def sdk_init_def default_sdk_values)

section \<open>Properties of fallback synthesis\<close>

lemma createFallbackResponse_fields:
  "confidence_score (createFallbackResponse gc a t b uid r) = Some 50"
  "risk_level (createFallbackResponse gc a t b uid r) = Some (fallback_defaultRiskLevel gc)"
  "request_id (createFallbackResponse gc a t b uid r) = Some (''fallback_'' @ take 12 b)"
  "timestamp (createFallbackResponse gc a t b uid r) = Some t"
  "api_version (createFallbackResponse gc a t b uid r) = Some ''1.0.0-fallback''"
  "fallback (createFallbackResponse gc a t b uid r) = Some True"
  "fallback_reason (createFallbackResponse gc a t b uid r) =
     Some (case r of None \<Rightarrow> ''service_unavailable'' | Some x \<Rightarrow> x)"
  by (simp_all add: createFallbackResponse_def Let_def)

lemma createFallbackResponse_factors:
  "risk_factors (createFallbackResponse gc a t b uid r) =
     [\<lparr> factor = ''system_fallback'', score = 50, weight = 1,
         details = ''Risk assessment service unavailable: '' @ reason_or_default r,
         proxycheck_data = [(''fallback'', JBool True)] \<rparr>]"
  by (simp add: createFallbackResponse_def Let_def reason_or_default_def)

lemma createFallbackResponse_metadata:
  "metadata (createFallbackResponse gc a t b uid r) =
     [(''processing_time_ms'', JNum 0),
      (''api_version'', JStr ''1.0.0-fallback''),
      (''request_id'', JStr (''fallback_'' @ take 12 a)),
      (''mvp_scope'', JStr ''fallback_mode'')]"
  by (simp add: createFallbackResponse_def Let_def)

text \<open>
  Claim C4, as amended: for every user id and reason, and whatever identifiers and time are
  drawn, \<open>createFallbackResponse\<close> returns an assessment whose \<open>risk_level\<close> is the
  configured default (\<open>REVIEW\<close> in the shipped configuration), whose \<open>confidence_score\<close> is
  50, whose factor list is the single factor \<open>system_fallback\<close> whose details name the
  reason, and which carries \<open>fallback = true\<close> and \<open>fallback_reason\<close> as keys of the
  assessment itself; its \<open>metadata\<close> has no \<open>fallback\<close> key and marks the fallback by
  \<open>mvp_scope = fallback_mode\<close>.
\<close>

theorem createFallbackResponse_shape:
  "risk_level (createFallbackResponse gc a t b uid r) = Some (fallback_defaultRiskLevel gc) \<and>
   fallback_defaultRiskLevel (idrockConfig en) = ''REVIEW'' \<and>
   confidence_score (createFallbackResponse gc a t b uid r) = Some 50 \<and>
   length (risk_factors (createFallbackResponse gc a t b uid r)) = 1 \<and>
   map factor (risk_factors (createFallbackResponse gc a t b uid r)) = [''system_fallback''] \<and>
   map details (risk_factors (createFallbackResponse gc a t b uid r)) =
     [''Risk assessment service unavailable: '' @ reason_or_default r] \<and>
   fallback (createFallbackResponse gc a t b uid r) = Some True \<and>
   fallback_reason (createFallbackResponse gc a t b uid r) = Some (reason_or_default r) \<and>
   map_of (metadata (createFallbackResponse gc a t b uid r)) ''fallback'' = None \<and>
   map_of (metadata (createFallbackResponse gc a t b uid r)) ''mvp_scope'' = Some (JStr ''fallback_mode'')"
  by (simp add: createFallbackResponse_fields createFallbackResponse_factors
        createFallbackResponse_metadata shipped_config_values reason_or_default_def)

text \<open>
  Claim C4 as stated fails in its last part: the \<open>metadata\<close> of a fallback assessment has
  the keys \<open>processing_time_ms\<close>, \<open>api_version\<close>, \<open>request_id\<close> and \<open>mvp_scope\<close>, so
  \<open>metadata.fallback\<close> is undefined.
\<close>

theorem fallback_metadata_has_no_flag:
  "map_of (metadata (createFallbackResponse (idrockConfig True)
             ''3b241101-e2bb-4255-8caf-4136c566a962'' ''2025-01-01T00:00:00.000Z''
             ''9f8c2d1e-5a6b-4c7d-8e9f-0a1b2c3d4e5f'' ''u1'' (Some ''service_error'')))
     ''fallback'' = None \<and>
   map fst (metadata (createFallbackResponse (idrockConfig True)
             ''3b241101-e2bb-4255-8caf-4136c566a962'' ''2025-01-01T00:00:00.000Z''
             ''9f8c2d1e-5a6b-4c7d-8e9f-0a1b2c3d4e5f'' ''u1'' (Some ''service_error''))) =
     [''processing_time_ms'', ''api_version'', ''request_id'', ''mvp_scope'']"
  by (simp add: createFallbackResponse_metadata)

text \<open>
  Claim C5: fallback synthesis is a total function of its arguments, and two calls with the
  same user id and reason give assessments that agree once the time stamp and the two
  request identifiers are erased; in particular they have the same \<open>risk_level\<close>, the same
  \<open>confidence_score\<close> and the same factors.
\<close>

theorem createFallbackResponse_pure:
  "without_ids (createFallbackResponse gc a t b uid r) =
   without_ids (createFallbackResponse gc a' t' b' uid r) \<and>
   risk_level (createFallbackResponse gc a t b uid r) =
     risk_level (createFallbackResponse gc a' t' b' uid r) \<and>
   confidence_score (createFallbackResponse gc a t b uid r) =
     confidence_score (createFallbackResponse gc a' t' b' uid r) \<and>
   risk_factors (createFallbackResponse gc a t b uid r) =
     risk_factors (createFallbackResponse gc a' t' b' uid r)"
proof -
  let ?x = "createFallbackResponse gc a t b uid r"
  let ?y = "createFallbackResponse gc a' t' b' uid r"
  have erased: "without_ids ?x = without_ids ?y"
    by (simp add: without_ids_def createFallbackResponse_def Let_def)
  have level: "risk_level ?x = risk_level ?y"
    by (simp add: createFallbackResponse_fields)
  have score: "confidence_score ?x = confidence_score ?y"
    by (simp add: createFallbackResponse_fields)
  have factors: "risk_factors ?x = risk_factors ?y"
    by (simp add: createFallbackResponse_factors)
  from erased level score factors show ?thesis by blast
qed

section \<open>Properties of the middleware\<close>

subsection \<open>The log and the annotations\<close>

lemma middleware_sdk_logging: "enableLogging (middleware_sdk gc)"
  by (simp add: middleware_sdk_def IDRockNodeSDK_config_def no_options_def)

lemma SecurityLog_create_accepts:
  "create_ok ev row \<Longrightarrow>
   SecurityLog_create ev row w = (Inr (), w\<lparr>security_logs := security_logs w @ [row]\<rparr>)"
  by (simp add: SecurityLog_create_def)

lemma annotate_logs: "security_logs (annotate f w) = security_logs w"
  by (simp add: annotate_def)

lemma annotate_ann: "ann (annotate f w) = f (ann w)"
  by (simp add: annotate_def)

lemma risk_rows_annotate: "risk_rows (annotate f w) = risk_rows w"
  by (simp add: risk_rows_def annotate_logs)

lemma risk_rows_sdk_update: "risk_rows (w\<lparr>sdk := s\<rparr>) = risk_rows w"
  by (simp add: risk_rows_def)

lemma risk_rows_append:
  "risk_rows (w\<lparr>security_logs := security_logs w @ [row]\<rparr>) =
     (if event_type row = ''risk_assessment'' then risk_rows w @ [row] else risk_rows w)"
  by (simp add: risk_rows_def)

lemma risk_rows_create:
  "risk_rows (snd (SecurityLog_create ev row w)) =
     (if create_ok ev row \<and> event_type row = ''risk_assessment'' then risk_rows w @ [row]
      else risk_rows w)"
  by (simp add: SecurityLog_create_def risk_rows_def)



subsection \<open>The two catch blocks\<close>

text \<open>When \<open>verifyIdentity\<close> throws, each middleware runs its \<open>catch\<close> block on the
  world with the client's new state.\<close>

lemma protectLogin_throw:
  "integration_enabled gc \<Longrightarrow>
   verifyIdentity (middleware_sdk gc) (server ev) (extractLoginUserData req) (sdk w) = (Inl e, s1) \<Longrightarrow>
   protectLogin gc ev req w = protectLogin_catch gc ev req (w\<lparr>sdk := s1\<rparr>)"
  by (simp add: protectLogin_def)

lemma protectCheckout_throw:
  "integration_enabled gc \<Longrightarrow>
   verifyIdentity (middleware_sdk gc) (server ev) (extractCheckoutUserData req) (sdk w) = (Inl e, s1) \<Longrightarrow>
   protectCheckout gc ev req w = protectCheckout_catch gc ev req (w\<lparr>sdk := s1\<rparr>)"
  by (simp add: protectCheckout_def)

lemma protectLogin_catch_disabled:
  "\<not> fallback_enabled gc \<Longrightarrow>
   protectLogin_catch gc ev req w = (Inr (Respond 503 login_unavailable), w)"
  by (simp add: protectLogin_catch_def)

lemma protectLogin_catch_sdk: "sdk (snd (protectLogin_catch gc ev req w)) = sdk w"
  by (simp add: protectLogin_catch_def Let_def SecurityLog_create_def annotate_def
        split: prod.splits sum.splits)

lemma protectLogin_catch_assessment:
  "fallback_enabled gc \<Longrightarrow>
   idrockAssessment (ann (snd (protectLogin_catch gc ev req w))) = Some (login_fallback gc ev req)"
  by (simp add: protectLogin_catch_def Let_def SecurityLog_create_def annotate_def
        login_fallback_def split: prod.splits sum.splits)


lemma login_fallback_row_type: "event_type (login_fallback_row gc ev req) = ''risk_assessment''"
  by (simp add: login_fallback_row_def logRiskAssessment_row_def)


lemma protectLogin_catch_logged:
  assumes "fallback_enabled gc" and "create_ok ev (login_fallback_row gc ev req)"
  shows "protectLogin_catch gc ev req w =
           (if fallback_allowProceed gc then Inr Next else Inr (Respond 503 login_unavailable),
            annotate (\<lambda>a. a\<lparr>idrockAssessment := Some (login_fallback gc ev req),
                             idrockServiceAvailable := Some False,
                             processingTime := Some (elapsed_catch ev),
                             requiresAdditionalAuth :=
                               (fallback_allowProceed gc \<or> requiresAdditionalAuth a)\<rparr>)
              (w\<lparr>security_logs := security_logs w @ [login_fallback_row gc ev req]\<rparr>))"
  using assms
  by (simp add: protectLogin_catch_def Let_def SecurityLog_create_def annotate_def
        login_fallback_def login_fallback_row_def)

lemma protectLogin_catch_not_logged:
  assumes "fallback_enabled gc" and "\<not> create_ok ev (login_fallback_row gc ev req)"
  shows "fst (protectLogin_catch gc ev req w) = Inl (DatabaseError ''create failed'')"
  using assms
  by (simp add: protectLogin_catch_def Let_def SecurityLog_create_def annotate_def
        login_fallback_def login_fallback_row_def)

lemma protectLogin_catch_no_throw:
  "create_ok ev (login_fallback_row gc ev req) \<Longrightarrow>
   \<exists>c. fst (protectLogin_catch gc ev req w) = Inr c"
  by (cases "fallback_enabled gc")
     (simp_all add: protectLogin_catch_logged protectLogin_catch_disabled)

lemma protectLogin_catch_risk_rows:
  assumes "fallback_enabled gc" and "create_ok ev (login_fallback_row gc ev req)"
  shows "risk_rows (snd (protectLogin_catch gc ev req w)) =
           risk_rows w @ [login_fallback_row gc ev req]"
  using assms
  by (simp add: protectLogin_catch_logged risk_rows_annotate risk_rows_append
        login_fallback_row_type)

lemma protectCheckout_catch_enabled:
  "fallback_enabled gc \<Longrightarrow>
   protectCheckout_catch gc ev req w =
     (Inr Next,
      annotate (\<lambda>a. a\<lparr>idrockAssessment := Some (checkout_fallback gc ev req),
                       idrockServiceAvailable := Some False,
                       processingTime := Some (elapsed_catch ev),
                       requiresReview := True,
                       securityReasons :=
                         Some [''Security service temporarily unavailable - manual review required'']\<rparr>) w)"
  by (simp add: protectCheckout_catch_def Let_def checkout_fallback_def)

lemma protectCheckout_catch_disabled:
  "\<not> fallback_enabled gc \<Longrightarrow>
   protectCheckout_catch gc ev req w = (Inr (Respond 503 checkout_unavailable), w)"
  by (simp add: protectCheckout_catch_def)

lemma protectCheckout_catch_logs:
  "security_logs (snd (protectCheckout_catch gc ev req w)) = security_logs w"
  by (simp add: protectCheckout_catch_def Let_def annotate_def)

lemma protectCheckout_catch_no_throw: "\<exists>c. fst (protectCheckout_catch gc ev req w) = Inr c"
  by (simp add: protectCheckout_catch_def Let_def)

lemma protectCheckout_catch_risk_rows:
  "risk_rows (snd (protectCheckout_catch gc ev req w)) = risk_rows w"
  by (simp add: risk_rows_def protectCheckout_catch_logs)

subsection \<open>The middleware of assessRisk\<close>

lemma assessRisk_throw:
  "integration_enabled gc \<Longrightarrow>
   verifyIdentity (middleware_sdk gc) (server ev)
     \<lparr> userId = js_or (req_user_id req) (js_or (body_userId req) (Some ''anonymous'')),
       ipAddress = getClientIP req,
       userAgent = js_or (header_User_Agent req) (Some ''unknown''),
       actionType = Some t \<rparr> (sdk w) = (Inl e, s1) \<Longrightarrow>
   assessRisk gc ev t req w = (Inl (ReferenceError ''userData is not defined''), w\<lparr>sdk := s1\<rparr>)"
  by (simp add: assessRisk_def)




subsection \<open>The sample requests\<close>

lemma env_of_simps:
  "server (env_of srv) = srv" "create_ok (env_of srv) row"
  "elapsed_try (env_of srv) = 12" "elapsed_catch (env_of srv) = 15"
  "uuid_first (env_of srv) = ''3b241101-e2bb-4255-8caf-4136c566a962''"
  "now_iso (env_of srv) = ''2025-01-01T00:00:00.000Z''"
  "uuid_second (env_of srv) = ''9f8c2d1e-5a6b-4c7d-8e9f-0a1b2c3d4e5f''"
  by (simp_all add: env_of_def)

lemma world_init_simps:
  "sdk world_init = sdk_init" "security_logs world_init = []" "risk_rows world_init = []"
  "ann world_init = no_annotations"
  by (simp_all add: world_init_def risk_rows_def)

lemma validate_loopback6:
  "validateUserData (extractLoginUserData request_loopback6) =
     Some (IDRockAPIError ''Invalid IP address format: ::1'' None None)"
  by (simp add: validateUserData_def extractLoginUserData_def request_loopback6_def
        request_u1_def getClientIP_def js_or_def js_truthy_def validActions_def
        ipRegex_test_def is_digit_def is_hex_def)

lemma validate_generic:
  "validateUserData
     \<lparr> userId = js_or (req_user_id request_u1) (js_or (body_userId request_u1) (Some ''anonymous'')),
       ipAddress = getClientIP request_u1,
       userAgent = js_or (header_User_Agent request_u1) (Some ''unknown''),
       actionType = Some ''generic'' \<rparr> =
   Some (IDRockAPIError
          ''Invalid action type: generic. Must be one of: login, checkout, sensitive_action''
          None None)"
  by (simp add: validateUserData_def request_u1_def getClientIP_def js_or_def js_truthy_def
        validActions_def)

lemma validate_request_u1:
  "validateUserData (extractLoginUserData request_u1) = None"
  "validateUserData (extractCheckoutUserData request_u1) = None"
  "validateUserData
     \<lparr> userId = js_or (req_user_id request_u1) (js_or (body_userId request_u1) (Some ''anonymous'')),
       ipAddress = getClientIP request_u1,
       userAgent = js_or (header_User_Agent request_u1) (Some ''unknown''),
       actionType = Some ''login'' \<rparr> = None"
  by (simp_all add: validateUserData_def extractLoginUserData_def extractCheckoutUserData_def
        request_u1_def getClientIP_def js_or_def js_truthy_def validActions_def
        ipRegex_test_def is_digit_def)

lemma verify_u1_503:
  "verifyIdentity cfg always_503 (extractLoginUserData request_u1) sdk_init =
     (Inl error_503, sdk_after_failure)"
  "verifyIdentity cfg always_503 (extractCheckoutUserData request_u1) sdk_init =
     (Inl error_503, sdk_after_failure)"
  by (simp_all add: verifyIdentity_valid_rejected [OF validate_request_u1(1) always_simps(2)]
        verifyIdentity_valid_rejected [OF validate_request_u1(2) always_simps(2)]
        handleError_503 error_503_def sdk_after_failure_def count_failure_def sdk_init_def)




lemma env_refusing_simps:
  "server (env_refusing srv) = srv" "\<not> create_ok (env_refusing srv) row"
  "uuid_second (env_refusing srv) = ''9f8c2d1e-5a6b-4c7d-8e9f-0a1b2c3d4e5f''"
  by (simp_all add: env_refusing_def env_of_def)


lemma no_fallback_config_values:
  "integration_enabled no_fallback_config" "\<not> fallback_enabled no_fallback_config"
  by (simp_all add: no_fallback_config_def idrockConfig_def)

lemma verify_u1_503_world:
  "verifyIdentity (middleware_sdk gc) (server (env_of always_503))
     (extractLoginUserData request_u1) (sdk world_init) = (Inl error_503, sdk_after_failure)"
  "verifyIdentity (middleware_sdk gc) (server (env_of always_503))
     (extractCheckoutUserData request_u1) (sdk world_init) = (Inl error_503, sdk_after_failure)"
  "verifyIdentity (middleware_sdk gc) (server (env_refusing always_503))
     (extractLoginUserData request_u1) (sdk world_init) = (Inl error_503, sdk_after_failure)"
  by (simp_all add: env_of_simps env_refusing_simps world_init_simps verify_u1_503)

subsection \<open>Invalid input and fallback\<close>

text \<open>
  Claim C3, as amended: an invalid-input error is handled like every other error of the
  client. When \<open>verifyIdentity\<close> rejects the identity context of a login request before any
  network call, \<open>protectLogin\<close> sends no request either; with fallback enabled it builds the
  fallback assessment (reason \<open>service_error\<close>) and puts it on the request; with fallback
  disabled it builds none and answers 503.
\<close>

theorem protectLogin_invalid_input_fallback:
  assumes "integration_enabled gc"
    and "validateUserData (extractLoginUserData req) = Some e"
  shows "sent (sdk (snd (protectLogin gc ev req w))) = sent (sdk w) \<and>
         (fallback_enabled gc \<longrightarrow>
            idrockAssessment (ann (snd (protectLogin gc ev req w))) =
              Some (login_fallback gc ev req)) \<and>
         (\<not> fallback_enabled gc \<longrightarrow>
            protectLogin gc ev req w =
              (Inr (Respond 503 login_unavailable), w\<lparr>sdk := count_failure (sdk w)\<rparr>))"
proof -
  have v: "verifyIdentity (middleware_sdk gc) (server ev) (extractLoginUserData req) (sdk w) =
             (Inl e, count_failure (sdk w))"
    using assms(2) by (rule verifyIdentity_invalid)
  have p: "protectLogin gc ev req w =
             protectLogin_catch gc ev req (w\<lparr>sdk := count_failure (sdk w)\<rparr>)"
    using assms(1) v by (rule protectLogin_throw)
  have "sent (sdk (snd (protectLogin gc ev req w))) = sent (sdk w)"
    by (simp add: p protectLogin_catch_sdk count_failure_def)
  moreover have "fallback_enabled gc \<longrightarrow>
      idrockAssessment (ann (snd (protectLogin gc ev req w))) = Some (login_fallback gc ev req)"
    by (simp add: p protectLogin_catch_assessment)
  moreover have "\<not> fallback_enabled gc \<longrightarrow>
      protectLogin gc ev req w =
        (Inr (Respond 503 login_unavailable), w\<lparr>sdk := count_failure (sdk w)\<rparr>)"
    by (simp add: p protectLogin_catch_disabled)
  ultimately show ?thesis by blast
qed

text \<open>The amended claim C3 at a login request that arrives from the IPv6 loopback address
  \<open>::1\<close>, which the client's pattern rejects, under the shipped configuration.\<close>

theorem protectLogin_invalid_input_fallback_witness:
  "integration_enabled (idrockConfig True) \<and>
   validateUserData (extractLoginUserData request_loopback6) =
     Some (IDRockAPIError ''Invalid IP address format: ::1'' None None) \<and>
   sent (sdk (snd (protectLogin (idrockConfig True) (env_of always_allow) request_loopback6 world_init))) =
     sent (sdk world_init) \<and>
   idrockAssessment (ann (snd (protectLogin (idrockConfig True) (env_of always_allow) request_loopback6 world_init))) =
     Some (login_fallback (idrockConfig True) (env_of always_allow) request_loopback6)"
  using protectLogin_invalid_input_fallback
          [OF shipped_config_values(1) validate_loopback6, of "env_of always_allow" world_init]
        shipped_config_values validate_loopback6
  by blast

text \<open>
  Claim C3 as stated fails: for the login request from \<open>::1\<close> the client throws its
  invalid-input error without a network call, and \<open>protectLogin\<close> builds a fallback
  assessment for the request and lets it proceed.
\<close>

theorem protectLogin_invalid_input_builds_fallback:
  "verifyIdentity (middleware_sdk (idrockConfig True)) always_allow
     (extractLoginUserData request_loopback6) sdk_init =
     (Inl (IDRockAPIError ''Invalid IP address format: ::1'' None None), count_failure sdk_init) \<and>
   fst (protectLogin (idrockConfig True) (env_of always_allow) request_loopback6 world_init) = Inr Next \<and>
   sent (sdk (snd (protectLogin (idrockConfig True) (env_of always_allow) request_loopback6 world_init))) = 0 \<and>
   map_option fallback_reason
     (idrockAssessment (ann (snd (protectLogin (idrockConfig True) (env_of always_allow) request_loopback6 world_init)))) =
     Some (Some ''service_error'') \<and>
   map_option fallback
     (idrockAssessment (ann (snd (protectLogin (idrockConfig True) (env_of always_allow) request_loopback6 world_init)))) =
     Some (Some True)"
proof -
  let ?gc = "idrockConfig True" and ?ev = "env_of always_allow"
  have v: "verifyIdentity (middleware_sdk ?gc) (server ?ev) (extractLoginUserData request_loopback6)
             (sdk world_init) =
           (Inl (IDRockAPIError ''Invalid IP address format: ::1'' None None), count_failure sdk_init)"
    using verifyIdentity_invalid [OF validate_loopback6] by (simp add: world_init_def)
  have p: "protectLogin ?gc ?ev request_loopback6 world_init =
             protectLogin_catch ?gc ?ev request_loopback6 (world_init\<lparr>sdk := count_failure sdk_init\<rparr>)"
    using shipped_config_values(1) v by (rule protectLogin_throw)
  have c: "protectLogin_catch ?gc ?ev request_loopback6 (world_init\<lparr>sdk := count_failure sdk_init\<rparr>) =
      (Inr Next,
       annotate (\<lambda>a. a\<lparr>idrockAssessment := Some (login_fallback ?gc ?ev request_loopback6),
                        idrockServiceAvailable := Some False,
                        processingTime := Some (elapsed_catch ?ev),
                        requiresAdditionalAuth :=
                          (fallback_allowProceed ?gc \<or> requiresAdditionalAuth a)\<rparr>)
         (world_init\<lparr>sdk := count_failure sdk_init,
            security_logs := security_logs (world_init\<lparr>sdk := count_failure sdk_init\<rparr>) @
              [login_fallback_row ?gc ?ev request_loopback6]\<rparr>))"
    using protectLogin_catch_logged [OF shipped_config_values(2) env_of_simps(2),
            of always_allow request_loopback6 "world_init\<lparr>sdk := count_failure sdk_init\<rparr>"]
    by (simp add: shipped_config_values)
  have f: "fallback_reason (login_fallback ?gc ?ev request_loopback6) = Some ''service_error''"
          "fallback (login_fallback ?gc ?ev request_loopback6) = Some True"
    by (simp_all add: login_fallback_def createFallbackResponse_fields)
  let ?r = "protectLogin ?gc ?ev request_loopback6 world_init"
  have v0: "verifyIdentity (middleware_sdk ?gc) always_allow
              (extractLoginUserData request_loopback6) sdk_init =
            (Inl (IDRockAPIError ''Invalid IP address format: ::1'' None None), count_failure sdk_init)"
    using validate_loopback6 by (rule verifyIdentity_invalid)
  have r1: "fst ?r = Inr Next" by (simp add: p c)
  have r2: "sent (sdk (snd ?r)) = 0"
    by (simp add: p protectLogin_catch_sdk count_failure_def sdk_init_def)
  have r3: "idrockAssessment (ann (snd ?r)) = Some (login_fallback ?gc ?ev request_loopback6)"
    by (simp add: p c annotate_def)
  from v0 r1 r2 show ?thesis by (simp add: r3 f)
qed

subsection \<open>Errors that leave a middleware\<close>

lemma protectCheckout_no_throw: "\<exists>c. fst (protectCheckout gc ev req w) = Inr c"
proof (cases "integration_enabled gc")
  case False
  then show ?thesis by (simp add: protectCheckout_def)
next
  case True
  have k: "\<And>w'. \<exists>c. fst (protectCheckout_catch gc ev req w') = Inr c"
    by (rule protectCheckout_catch_no_throw)
  show ?thesis
    using True k
    by (auto simp: protectCheckout_def Let_def split: prod.splits sum.splits option.splits)
qed

lemma protectLogin_no_throw:
  assumes "create_ok ev (login_fallback_row gc ev req)"
  shows "\<exists>c. fst (protectLogin gc ev req w) = Inr c"
proof (cases "integration_enabled gc")
  case False
  then show ?thesis by (simp add: protectLogin_def)
next
  case True
  have k: "\<And>w'. \<exists>c. fst (protectLogin_catch gc ev req w') = Inr c"
    using assms by (rule protectLogin_catch_no_throw)
  show ?thesis
    using True k
    by (auto simp: protectLogin_def Let_def split: prod.splits sum.splits option.splits)
qed

lemma assessRisk_generic_throws:
  "assessRisk (idrockConfig True) (env_of always_allow) ''generic'' request_u1 world_init =
     (Inl (ReferenceError ''userData is not defined''),
      world_init\<lparr>sdk := count_failure sdk_init\<rparr>)"
proof -
  have "verifyIdentity (middleware_sdk (idrockConfig True)) (server (env_of always_allow))
     \<lparr> userId = js_or (req_user_id request_u1) (js_or (body_userId request_u1) (Some ''anonymous'')),
       ipAddress = getClientIP request_u1,
       userAgent = js_or (header_User_Agent request_u1) (Some ''unknown''),
       actionType = Some ''generic'' \<rparr> (sdk world_init) =
     (Inl (IDRockAPIError
          ''Invalid action type: generic. Must be one of: login, checkout, sensitive_action''
          None None), count_failure (sdk world_init))"
    using validate_generic by (rule verifyIdentity_invalid)
  then show ?thesis
    using assessRisk_throw [OF shipped_config_values(1)] by (simp add: world_init_def)
qed

text \<open>
  Claim C6 says that no error of the Assessment Client leaves the middleware as an unhandled
  exception. The middleware of \<open>assessRisk\<close> breaks this: on the route that uses the action
  type \<open>generic\<close> the client rejects every request (the action type is not valid), and on a
  \<open>login\<close> assessment with a scoring service that answers 503 the client fails; in both
  runs the \<open>catch\<close> block throws a \<open>ReferenceError\<close>, the request is not annotated and
  \<open>next()\<close> is not called. The lemmas above show that \<open>protectCheckout\<close> never throws and
  that \<open>protectLogin\<close> throws only when the write of its fallback row fails.
\<close>

theorem assessRisk_error_escapes:
  "assessRisk (idrockConfig True) (env_of always_allow) ''generic'' request_u1 world_init =
     (Inl (ReferenceError ''userData is not defined''),
      world_init\<lparr>sdk := count_failure sdk_init\<rparr>) \<and>
   assessRisk (idrockConfig True) (env_of always_503) ''login'' request_u1 world_init =
     (Inl (ReferenceError ''userData is not defined''),
      world_init\<lparr>sdk := sdk_after_failure\<rparr>)"
proof -
  have "verifyIdentity (middleware_sdk (idrockConfig True)) (server (env_of always_503))
     \<lparr> userId = js_or (req_user_id request_u1) (js_or (body_userId request_u1) (Some ''anonymous'')),
       ipAddress = getClientIP request_u1,
       userAgent = js_or (header_User_Agent request_u1) (Some ''unknown''),
       actionType = Some ''login'' \<rparr> (sdk world_init) =
     (Inl error_503, sdk_after_failure)"
    by (simp add: verifyIdentity_valid_rejected [OF validate_request_u1(3)] env_of_simps
          always_simps handleError_503 error_503_def sdk_after_failure_def count_failure_def
          world_init_simps sdk_init_def)
  from assessRisk_throw [OF shipped_config_values(1) this]
  have b: "assessRisk (idrockConfig True) (env_of always_503) ''login'' request_u1 world_init =
     (Inl (ReferenceError ''userData is not defined''), world_init\<lparr>sdk := sdk_after_failure\<rparr>)" .
  from assessRisk_generic_throws b show ?thesis by blast
qed

subsection \<open>Rows written per request\<close>











subsection \<open>The fallback policy\<close>

text \<open>
  Claim C8, as amended: whenever \<open>verifyIdentity\<close> fails, \<open>protectLogin\<close> answers 503
  \<open>SERVICE_UNAVAILABLE\<close> if fallback is disabled; if fallback is enabled and the audit store
  accepts the fallback row, it lets the request proceed with \<open>requiresAdditionalAuth\<close> set
  when \<open>allowProceed\<close> is set and answers 503 \<open>SERVICE_UNAVAILABLE\<close> when it is not.
  \<open>protectCheckout\<close> lets the request proceed with \<open>requiresReview\<close> set whenever fallback
  is enabled, whatever \<open>allowProceed\<close> says, and otherwise answers 503
  \<open>SECURITY_VERIFICATION_REQUIRED\<close>. Neither 503 body carries a correlation id, and in no
  case does the request proceed unflagged.
\<close>

theorem fallback_policy:
  assumes "integration_enabled gc"
  shows "(verifyIdentity (middleware_sdk gc) (server ev) (extractLoginUserData req) (sdk w) =
            (Inl e, s1) \<longrightarrow>
          (fallback_enabled gc \<and> fallback_allowProceed gc \<and>
           create_ok ev (login_fallback_row gc ev req) \<longrightarrow>
             fst (protectLogin gc ev req w) = Inr Next \<and>
             requiresAdditionalAuth (ann (snd (protectLogin gc ev req w)))) \<and>
          (fallback_enabled gc \<and> \<not> fallback_allowProceed gc \<and>
           create_ok ev (login_fallback_row gc ev req) \<longrightarrow>
             fst (protectLogin gc ev req w) = Inr (Respond 503 login_unavailable)) \<and>
          (\<not> fallback_enabled gc \<longrightarrow>
             fst (protectLogin gc ev req w) = Inr (Respond 503 login_unavailable)) \<and>
          (fst (protectLogin gc ev req w) = Inr Next \<longrightarrow>
             requiresAdditionalAuth (ann (snd (protectLogin gc ev req w)))))
       \<and> (verifyIdentity (middleware_sdk gc) (server ev) (extractCheckoutUserData req) (sdk w) =
            (Inl e', s1') \<longrightarrow>
          (fallback_enabled gc \<longrightarrow>
             fst (protectCheckout gc ev req w) = Inr Next \<and>
             requiresReview (ann (snd (protectCheckout gc ev req w)))) \<and>
          (\<not> fallback_enabled gc \<longrightarrow>
             fst (protectCheckout gc ev req w) = Inr (Respond 503 checkout_unavailable)))
       \<and> body_requestId login_unavailable = None \<and> body_requestId checkout_unavailable = None
       \<and> body_code login_unavailable = ''SERVICE_UNAVAILABLE''
       \<and> body_code checkout_unavailable = ''SECURITY_VERIFICATION_REQUIRED''"
proof (intro conjI impI)
  assume v: "verifyIdentity (middleware_sdk gc) (server ev) (extractLoginUserData req) (sdk w) =
               (Inl e, s1)"
  have p: "protectLogin gc ev req w = protectLogin_catch gc ev req (w\<lparr>sdk := s1\<rparr>)"
    using assms v by (rule protectLogin_throw)
  {
    assume a: "fallback_enabled gc \<and> fallback_allowProceed gc \<and>
               create_ok ev (login_fallback_row gc ev req)"
    show "fst (protectLogin gc ev req w) = Inr Next"
      using a by (simp add: p protectLogin_catch_logged)
    show "requiresAdditionalAuth (ann (snd (protectLogin gc ev req w)))"
      using a by (simp add: p protectLogin_catch_logged annotate_ann)
  }
  {
    assume a: "fallback_enabled gc \<and> \<not> fallback_allowProceed gc \<and>
               create_ok ev (login_fallback_row gc ev req)"
    show "fst (protectLogin gc ev req w) = Inr (Respond 503 login_unavailable)"
      using a by (simp add: p protectLogin_catch_logged)
  }
  {
    assume a: "\<not> fallback_enabled gc"
    show "fst (protectLogin gc ev req w) = Inr (Respond 503 login_unavailable)"
      using a by (simp add: p protectLogin_catch_disabled)
  }
  {
    assume a: "fst (protectLogin gc ev req w) = Inr Next"
    show "requiresAdditionalAuth (ann (snd (protectLogin gc ev req w)))"
    proof (cases "fallback_enabled gc \<and> create_ok ev (login_fallback_row gc ev req)")
      case True
      with a show ?thesis
        by (cases "fallback_allowProceed gc")
           (simp_all add: p protectLogin_catch_logged annotate_ann)
    next
      case False
      with a show ?thesis
        by (cases "fallback_enabled gc")
           (simp_all add: p protectLogin_catch_not_logged protectLogin_catch_disabled)
    qed
  }
next
  assume v: "verifyIdentity (middleware_sdk gc) (server ev) (extractCheckoutUserData req) (sdk w) =
               (Inl e', s1')"
  have p: "protectCheckout gc ev req w = protectCheckout_catch gc ev req (w\<lparr>sdk := s1'\<rparr>)"
    using assms v by (rule protectCheckout_throw)
  {
    assume a: "fallback_enabled gc"
    show "fst (protectCheckout gc ev req w) = Inr Next"
      using a by (simp add: p protectCheckout_catch_enabled)
    show "requiresReview (ann (snd (protectCheckout gc ev req w)))"
      using a by (simp add: p protectCheckout_catch_enabled annotate_ann)
  }
  {
    assume a: "\<not> fallback_enabled gc"
    show "fst (protectCheckout gc ev req w) = Inr (Respond 503 checkout_unavailable)"
      using a by (simp add: p protectCheckout_catch_disabled)
  }
next
  show "body_requestId login_unavailable = None" by (simp add: login_unavailable_def)
  show "body_requestId checkout_unavailable = None" by (simp add: checkout_unavailable_def)
  show "body_code login_unavailable = ''SERVICE_UNAVAILABLE''" by (simp add: login_unavailable_def)
  show "body_code checkout_unavailable = ''SECURITY_VERIFICATION_REQUIRED''"
    by (simp add: checkout_unavailable_def)
qed

text \<open>The amended claim C8 with a scoring service that answers 503 and a store that accepts
  every row, under the shipped configuration, under the one with \<open>allowProceed\<close> off and
  under the one with fallback disabled.\<close>

theorem fallback_policy_witness:
  "integration_enabled (idrockConfig True) \<and> integration_enabled blocking_config \<and>
   integration_enabled no_fallback_config \<and>
   verifyIdentity (middleware_sdk (idrockConfig True)) (server (env_of always_503))
     (extractLoginUserData request_u1) (sdk world_init) = (Inl error_503, sdk_after_failure) \<and>
   verifyIdentity (middleware_sdk (idrockConfig True)) (server (env_of always_503))
     (extractCheckoutUserData request_u1) (sdk world_init) = (Inl error_503, sdk_after_failure) \<and>
   fallback_enabled (idrockConfig True) \<and> fallback_allowProceed (idrockConfig True) \<and>
   create_ok (env_of always_503) (login_fallback_row (idrockConfig True) (env_of always_503) request_u1) \<and>
   fst (protectLogin (idrockConfig True) (env_of always_503) request_u1 world_init) = Inr Next \<and>
   requiresAdditionalAuth (ann (snd (protectLogin (idrockConfig True) (env_of always_503) request_u1 world_init))) \<and>
   fst (protectCheckout (idrockConfig True) (env_of always_503) request_u1 world_init) = Inr Next \<and>
   requiresReview (ann (snd (protectCheckout (idrockConfig True) (env_of always_503) request_u1 world_init))) \<and>
   fallback_enabled blocking_config \<and> \<not> fallback_allowProceed blocking_config \<and>
   create_ok (env_of always_503) (login_fallback_row blocking_config (env_of always_503) request_u1) \<and>
   fst (protectLogin blocking_config (env_of always_503) request_u1 world_init) =
     Inr (Respond 503 login_unavailable) \<and>
   \<not> fallback_enabled no_fallback_config \<and>
   fst (protectLogin no_fallback_config (env_of always_503) request_u1 world_init) =
     Inr (Respond 503 login_unavailable) \<and>
   fst (protectCheckout no_fallback_config (env_of always_503) request_u1 world_init) =
     Inr (Respond 503 checkout_unavailable)"
proof -
  note t1 = fallback_policy [OF shipped_config_values(1), of "env_of always_503" request_u1
              world_init error_503 sdk_after_failure error_503 sdk_after_failure]
  note t2 = fallback_policy [OF blocking_config_values(1), of "env_of always_503" request_u1
              world_init error_503 sdk_after_failure error_503 sdk_after_failure]
  note t3 = fallback_policy [OF no_fallback_config_values(1), of "env_of always_503" request_u1
              world_init error_503 sdk_after_failure error_503 sdk_after_failure]
  from t1 have a:
    "fst (protectLogin (idrockConfig True) (env_of always_503) request_u1 world_init) = Inr Next"
    "requiresAdditionalAuth (ann (snd (protectLogin (idrockConfig True) (env_of always_503) request_u1 world_init)))"
    "fst (protectCheckout (idrockConfig True) (env_of always_503) request_u1 world_init) = Inr Next"
    "requiresReview (ann (snd (protectCheckout (idrockConfig True) (env_of always_503) request_u1 world_init)))"
    using verify_u1_503_world shipped_config_values env_of_simps(2) by blast+
  from t2 have b:
    "fst (protectLogin blocking_config (env_of always_503) request_u1 world_init) =
       Inr (Respond 503 login_unavailable)"
    using verify_u1_503_world blocking_config_values env_of_simps(2) by blast
  from t3 have c:
    "fst (protectLogin no_fallback_config (env_of always_503) request_u1 world_init) =
       Inr (Respond 503 login_unavailable)"
    "fst (protectCheckout no_fallback_config (env_of always_503) request_u1 world_init) =
       Inr (Respond 503 checkout_unavailable)"
    using verify_u1_503_world no_fallback_config_values by blast+
  from a b c verify_u1_503_world shipped_config_values blocking_config_values
    no_fallback_config_values env_of_simps(2)
  show ?thesis by blast
qed

text \<open>
  Claim C8 as stated fails: with fallback enabled and \<open>allowProceed\<close> off, and a scoring
  service that answers 503, the rejection of \<open>protectLogin\<close> carries no correlation id, and
  \<open>protectCheckout\<close> does not reject at all but lets the request proceed; and under the
  shipped configuration, when the store refuses the fallback row, \<open>protectLogin\<close> neither
  proceeds nor rejects: the failed write leaves it as an exception.
\<close>

theorem blocking_fallback_outcomes:
  "fallback_enabled blocking_config \<and> \<not> fallback_allowProceed blocking_config \<and>
   verifyIdentity (middleware_sdk blocking_config) always_503 (extractLoginUserData request_u1) sdk_init =
     (Inl error_503, sdk_after_failure) \<and>
   fst (protectLogin blocking_config (env_of always_503) request_u1 world_init) =
     Inr (Respond 503 login_unavailable) \<and>
   body_requestId login_unavailable = None \<and>
   verifyIdentity (middleware_sdk blocking_config) always_503 (extractCheckoutUserData request_u1) sdk_init =
     (Inl error_503, sdk_after_failure) \<and>
   fst (protectCheckout blocking_config (env_of always_503) request_u1 world_init) = Inr Next \<and>
   fallback_enabled (idrockConfig True) \<and> fallback_allowProceed (idrockConfig True) \<and>
   verifyIdentity (middleware_sdk (idrockConfig True)) always_503 (extractLoginUserData request_u1) sdk_init =
     (Inl error_503, sdk_after_failure) \<and>
   fst (protectLogin (idrockConfig True) (env_refusing always_503) request_u1 world_init) =
     Inl (DatabaseError ''create failed'')"
proof -
  let ?gc = "blocking_config"
  have pl: "protectLogin ?gc (env_of always_503) request_u1 world_init =
              protectLogin_catch ?gc (env_of always_503) request_u1 (world_init\<lparr>sdk := sdk_after_failure\<rparr>)"
    using blocking_config_values(1) verify_u1_503_world(1) by (rule protectLogin_throw)
  have pc: "protectCheckout ?gc (env_of always_503) request_u1 world_init =
              protectCheckout_catch ?gc (env_of always_503) request_u1 (world_init\<lparr>sdk := sdk_after_failure\<rparr>)"
    using blocking_config_values(1) verify_u1_503_world(2) by (rule protectCheckout_throw)
  have pr: "protectLogin (idrockConfig True) (env_refusing always_503) request_u1 world_init =
              protectLogin_catch (idrockConfig True) (env_refusing always_503) request_u1
                (world_init\<lparr>sdk := sdk_after_failure\<rparr>)"
    using shipped_config_values(1) verify_u1_503_world(3) by (rule protectLogin_throw)
  have r1: "fst (protectLogin ?gc (env_of always_503) request_u1 world_init) =
              Inr (Respond 503 login_unavailable)"
    by (simp add: pl protectLogin_catch_logged [OF blocking_config_values(2) env_of_simps(2)]
          blocking_config_values)
  have r2: "fst (protectCheckout ?gc (env_of always_503) request_u1 world_init) = Inr Next"
    by (simp add: pc protectCheckout_catch_enabled blocking_config_values)
  have r3: "body_requestId login_unavailable = None" by (simp add: login_unavailable_def)
  have r4: "fst (protectLogin (idrockConfig True) (env_refusing always_503) request_u1 world_init) =
              Inl (DatabaseError ''create failed'')"
    by (simp add: pr protectLogin_catch_not_logged [OF shipped_config_values(2) env_refusing_simps(2)])
  from r1 r2 r3 r4 show ?thesis
    by (simp add: verify_u1_503 blocking_config_values shipped_config_values)
qed

section \<open>Properties of the fingerprint collector\<close>


lemma hashStep_31: "hashStep h c = 31 * h + ucast c"
  by (simp add: hashStep_def push_bit_eq_mult)

lemma hashString_31:
  "hashString str =
     toString_radix 36 (nat \<bar>sint (foldl (\<lambda>h c. 31 * h + ucast c) (0 :: 32 word) str)\<bar>)"
proof -
  have "hashStep = (\<lambda>h c. 31 * h + ucast c)"
    by (intro ext) (rule hashStep_31)
  then show ?thesis by (simp add: hashString_def)
qed

lemma hashString_example: "hashString (js_str ''canvas|no_audio_context'') = ''b2lxf0''"
  by (simp add: hashString_31 js_str_def toString_radix.simps digit_char_def)

lemma hashString_collision: "hashString (js_str ''Aa'') = hashString (js_str ''BB'')"
  by (simp add: hashString_31 js_str_def)








end
